theory Spec2Isabelle
  imports Complex_Main "HOL-Library.Word" "HOL-Library.Sublist"
begin

unbundle bit_operations_syntax

section \<open>Strings\<close>

text \<open>
  A JavaScript string is a sequence of UTF-16 code units.  \<open>js\<close> turns an ASCII
  literal into such a sequence, one code unit per character.
\<close>

type_synonym jschar = "16 word"

type_synonym jsstring = "jschar list"

definition js :: "string \<Rightarrow> jsstring" where
  "js = map of_char"

text \<open>
  \<open>String.prototype.trim\<close> strips WhiteSpace and LineTerminator code points from both
  ends: TAB, LF, VT, FF, CR, SP, NBSP, U+1680, U+2000..U+200A, LS, PS, U+202F, U+205F,
  U+3000 and the byte-order mark U+FEFF.
\<close>

definition isWhiteSpace :: "jschar \<Rightarrow> bool" where
  "isWhiteSpace c \<longleftrightarrow>
     c \<in> {0x0009, 0x000A, 0x000B, 0x000C, 0x000D, 0x0020, 0x00A0, 0x1680,
          0x2028, 0x2029, 0x202F, 0x205F, 0x3000, 0xFEFF}
     \<or> (0x2000 \<le> c \<and> c \<le> 0x200A)"

definition trim :: "jsstring \<Rightarrow> jsstring" where
  "trim s = rev (dropWhile isWhiteSpace (rev (dropWhile isWhiteSpace s)))"

text \<open>
  \<open>String.prototype.split\<close> with a string separator and no limit: the text is scanned
  from the left, every occurrence of the separator found at the scanning position closes
  the current piece and the scan resumes behind it; the last piece is closed by the end
  of the text.  With the empty separator the text falls apart into its code units.
\<close>

function split_from :: "jsstring \<Rightarrow> jsstring \<Rightarrow> jsstring \<Rightarrow> jsstring list" where
  "split_from sep piece [] = [piece]"
| "split_from sep piece (c # cs) =
     (if sep \<noteq> [] \<and> prefix sep (c # cs)
      then piece # split_from sep [] (drop (length sep) (c # cs))
      else split_from sep (piece @ [c]) cs)"
  by pat_completeness auto
termination
  by (relation "measure (\<lambda>(sep, piece, s). length s)") (auto simp: neq_Nil_conv)

definition split :: "jsstring \<Rightarrow> jsstring \<Rightarrow> jsstring list" where
  "split sep s = (if sep = [] then map (\<lambda>c. [c]) s else split_from sep [] s)"

text \<open>\<open>Array.prototype.join\<close> on an array of strings.\<close>

fun join :: "jsstring \<Rightarrow> jsstring list \<Rightarrow> jsstring" where
  "join sep [] = []"
| "join sep [x] = x"
| "join sep (x # y # ys) = x @ sep @ join sep (y # ys)"

text \<open>The separator of the derived query text: three spaces, AND, three spaces.\<close>

definition delimiter :: jsstring where
  "delimiter = js ''   AND   ''"

text \<open>
  The expression \<open>value.split('   AND   ').map(f => f.trim()).filter(f => f.length > 0)\<close>,
  which \<open>initializeComponents\<close> and \<open>handleSearchInputChange\<close> both bind to \<open>newFilters\<close>.
\<close>

definition newFilters :: "jsstring \<Rightarrow> jsstring list" where
  "newFilters v = filter (\<lambda>f. length f > 0) (map trim (split delimiter v))"

text \<open>
  The text of an \<open>input\<close> element of type \<open>text\<close> or \<open>search\<close> never holds a line
  break: whatever is assigned to its \<open>value\<close>, typed or pasted into it loses its line
  feeds (U+000A) and carriage returns (U+000D) on the way in.
\<close>

definition stripNewlines :: "jsstring \<Rightarrow> jsstring" where
  "stripNewlines v = filter (\<lambda>c. c \<noteq> 0x000A \<and> c \<noteq> 0x000D) v"

text \<open>A filter term as the specification wants it: non-empty and whitespace-trimmed.\<close>

definition filterTerm :: "jsstring \<Rightarrow> bool" where
  "filterTerm l \<longleftrightarrow> length l > 0 \<and> trim l = l"

subsection \<open>\<open>JSON.stringify\<close> on arrays of strings\<close>

text \<open>
  The two filter lists are compared through their JSON texts.  For an array of strings
  \<open>JSON.stringify\<close> writes \<open>[\<close>, the quoted elements separated by commas, and \<open>]\<close>.
  QuoteJSONString escapes backspace, tab, line feed, form feed, carriage return, the
  double quote and the backslash with a two-character escape, every other code unit
  below U+0020 and every unpaired surrogate as \<open>\uXXXX\<close> with lower-case hexadecimal
  digits, and copies everything else (a well-formed surrogate pair included).
\<close>

definition hexDigit :: "nat \<Rightarrow> jschar" where
  "hexDigit n = of_nat (if n < 10 then 0x30 + n else 0x57 + n)"

definition UnicodeEscape :: "jschar \<Rightarrow> jsstring" where
  "UnicodeEscape c =
     [0x5C, 0x75, hexDigit (unat c div 4096), hexDigit (unat c div 256 mod 16),
      hexDigit (unat c div 16 mod 16), hexDigit (unat c mod 16)]"

definition isLeadingSurrogate :: "jschar \<Rightarrow> bool" where
  "isLeadingSurrogate c \<longleftrightarrow> 0xD800 \<le> c \<and> c \<le> 0xDBFF"

definition isTrailingSurrogate :: "jschar \<Rightarrow> bool" where
  "isTrailingSurrogate c \<longleftrightarrow> 0xDC00 \<le> c \<and> c \<le> 0xDFFF"

definition shortEscape :: "jschar \<Rightarrow> jschar option" where
  "shortEscape c =
     (if c = 0x08 then Some 0x62 else if c = 0x09 then Some 0x74
      else if c = 0x0A then Some 0x6E else if c = 0x0C then Some 0x66
      else if c = 0x0D then Some 0x72 else if c = 0x22 then Some 0x22
      else if c = 0x5C then Some 0x5C else None)"

fun quoteBody :: "jsstring \<Rightarrow> jsstring" where
  "quoteBody [] = []"
| "quoteBody (c # cs) =
     (case shortEscape c of
        Some e \<Rightarrow> [0x5C, e] @ quoteBody cs
      | None \<Rightarrow>
          if c < 0x20 then UnicodeEscape c @ quoteBody cs
          else if isLeadingSurrogate c then
            (case cs of
               [] \<Rightarrow> UnicodeEscape c
             | d # ds \<Rightarrow>
                 if isTrailingSurrogate d then c # d # quoteBody ds
                 else UnicodeEscape c @ quoteBody cs)
          else if isTrailingSurrogate c then UnicodeEscape c @ quoteBody cs
          else c # quoteBody cs)"

definition QuoteJSONString :: "jsstring \<Rightarrow> jsstring" where
  "QuoteJSONString s = 0x22 # quoteBody s @ [0x22]"

definition JSON_stringify :: "jsstring list \<Rightarrow> jsstring" where
  "JSON_stringify xs = 0x5B # join [0x2C] (map QuoteJSONString xs) @ [0x5D]"

text \<open>
  A reader for quoted strings.  The program has no such function; it is the inverse that
  shows \<open>JSON_stringify\<close> to be injective, so that comparing the JSON texts of two
  filter lists is comparing the lists.
\<close>

definition unhexDigit :: "jschar \<Rightarrow> nat" where
  "unhexDigit h = (if unat h < 0x3A then unat h - 0x30 else unat h - 0x57)"

definition unhex4 :: "jsstring \<Rightarrow> jschar" where
  "unhex4 hs =
     (case hs of
        [h1, h2, h3, h4] \<Rightarrow>
          of_nat (4096 * unhexDigit h1 + 256 * unhexDigit h2 + 16 * unhexDigit h3 + unhexDigit h4)
      | _ \<Rightarrow> 0)"

definition unshortEscape :: "jschar \<Rightarrow> jschar" where
  "unshortEscape e =
     (if e = 0x62 then 0x08 else if e = 0x74 then 0x09 else if e = 0x6E then 0x0A
      else if e = 0x66 then 0x0C else if e = 0x72 then 0x0D else e)"

function unquoteBody :: "jsstring \<Rightarrow> jsstring \<times> jsstring" where
  "unquoteBody [] = ([], [])"
| "unquoteBody (c # cs) =
     (if c = 0x22 then ([], cs)
      else if c = 0x5C then
        (case cs of
           [] \<Rightarrow> ([], [])
         | e # rest \<Rightarrow>
             if e = 0x75
             then (let (s, r) = unquoteBody (drop 4 rest) in (unhex4 (take 4 rest) # s, r))
             else (let (s, r) = unquoteBody rest in (unshortEscape e # s, r)))
      else (let (s, r) = unquoteBody cs in (c # s, r)))"
  by pat_completeness auto
termination
  by (relation "measure length") auto

section \<open>The settings record\<close>

text \<open>
  \<open>loadData\<close> hands back whatever JSON value the host has stored for the plugin, or
  \<open>null\<close> when nothing is stored.  The payload of a number is never looked at.
\<close>

datatype json =
    JNull
  | JBool bool
  | JNumber real
  | JString jsstring
  | JArray "json list"
  | JObject "(jsstring \<times> json) list"

text \<open>Array indices and string positions are property keys in decimal notation.\<close>

function decimal :: "nat \<Rightarrow> jsstring" where
  "decimal n = (if n < 10 then [of_nat (0x30 + n)]
                else decimal (n div 10) @ [of_nat (0x30 + n mod 10)])"
  by pat_completeness auto
termination
  by (relation "measure id") auto

declare decimal.simps [simp del]

text \<open>
  The own enumerable properties that object spread copies: none for \<open>null\<close>, booleans
  and numbers, the indexed elements of an array, the indexed code units of a string, and
  the members of an object.
\<close>

fun ownProperties :: "json \<Rightarrow> (jsstring \<times> json) list" where
  "ownProperties (JObject ps) = ps"
| "ownProperties (JArray xs) = zip (map decimal [0..<length xs]) xs"
| "ownProperties (JString s) = zip (map decimal [0..<length s]) (map (\<lambda>c. JString [c]) s)"
| "ownProperties _ = []"

definition DEFAULT_SETTINGS :: "(jsstring \<times> json) list" where
  "DEFAULT_SETTINGS = [(js ''filters'', JArray [])]"

text \<open>
  \<open>this.settings = { ...DEFAULT_SETTINGS, ...(await this.loadData()) }\<close>: the settings
  object as a map from property keys to values, the loaded properties laid over the
  defaults.
\<close>

definition loadSettings :: "json \<Rightarrow> (jsstring \<rightharpoonup> json)" where
  "loadSettings data = map_of DEFAULT_SETTINGS ++ map_of (ownProperties data)"

section \<open>The plugin and the document it works on\<close>

text \<open>
  Elements are referred to by number.  The state holds the fields of the plugin instance
  (\<open>filters\<close> for \<open>this.settings.filters\<close>, \<open>filtersContainer\<close>, \<open>searchInput\<close>,
  \<open>secondaryInput\<close>, \<open>existingSecondaryInput\<close>), what \<open>saveData\<close> has been called with
  (\<open>savedData\<close>), the console, and the document.  The document is seen through what the
  plugin asks of it: whether \<open>.graph-controls .setting-item.mod-search-setting\<close> is there
  (\<open>controls\<close>), the host's native search input (\<open>nativeInput\<close>), and the nodes the plugin
  has put behind the controls that are still connected (\<open>inserted\<close>, in document order).
  Of an input element the state knows its text and how many \<open>input\<close> and \<open>keydown\<close>
  listeners the plugin has added to it; of a pills container, the pills rendered into it.
  \<open>nextRef\<close> is the number the next created element gets.
\<close>

type_synonym ref = nat

datatype node = PillsContainer ref | SearchInputContainer ref

record pill =
  dataIndex :: nat
  pillValue :: jsstring

datatype logline = ViewType "jsstring option" | Guarded bool bool | Adding

datatype error = TypeError

record state =
  filters :: "jsstring list"
  filtersContainer :: "ref option"
  searchInput :: "ref option"
  secondaryInput :: "ref option"
  existingSecondaryInput :: bool
  savedData :: "jsstring list list"
  controls :: bool
  nativeInput :: "ref option"
  inserted :: "node list"
  inputValue :: "ref \<Rightarrow> jsstring"
  inputListeners :: "ref \<Rightarrow> nat"
  keydownListeners :: "ref \<Rightarrow> nat"
  pills :: "ref \<Rightarrow> pill list"
  nextRef :: ref
  console :: "logline list"

text \<open>
  An operation either returns, or throws leaving the state it had reached: \<open>Inl (e, s)\<close>
  is the exception \<open>e\<close> thrown in state \<open>s\<close>.
\<close>

type_synonym outcome = "(error \<times> state) + state"

definition stateOf :: "outcome \<Rightarrow> state" where
  "stateOf out = (case out of Inl (e, s) \<Rightarrow> s | Inr s \<Rightarrow> s)"

text \<open>
  \<open>saveData(this.settings)\<close>: every call is one write of the current filter list to the
  host's storage; \<open>savedData\<close> holds the writes, newest first.
\<close>

definition saveSettings :: "state \<Rightarrow> state" where
  "saveSettings s = s\<lparr>savedData := filters s # savedData s\<rparr>"

definition isConnected :: "state \<Rightarrow> ref \<Rightarrow> bool" where
  "isConnected s c \<longleftrightarrow> PillsContainer c \<in> set (inserted s)"

text \<open>
  \<open>controls.parentNode\<close> is never \<open>null\<close> for an element that \<open>document.querySelector\<close>
  has found, so the insertion always happens; the new node goes directly behind the
  controls, in front of what was inserted before.
\<close>

definition createPillsContainer :: "state \<Rightarrow> state" where
  "createPillsContainer s =
     (if \<not> controls s \<or> (case filtersContainer s of None \<Rightarrow> False | Some c \<Rightarrow> isConnected s c)
      then s
      else s\<lparr>filtersContainer := Some (nextRef s),
             pills := (pills s)(nextRef s := []),
             inserted := PillsContainer (nextRef s) # inserted s,
             nextRef := Suc (nextRef s)\<rparr>)"

definition createSecondaryInput :: "state \<Rightarrow> state" where
  "createSecondaryInput s =
     (if \<not> controls s \<or> existingSecondaryInput s
      then s\<lparr>console := console s @ [Guarded (\<not> controls s) (existingSecondaryInput s)]\<rparr>
      else s\<lparr>console := console s @ [Adding],
             secondaryInput := Some (nextRef s),
             inputValue := (inputValue s)(nextRef s := []),
             inputListeners := (inputListeners s)(nextRef s := 0),
             keydownListeners := (keydownListeners s)(nextRef s := 0),
             inserted := SearchInputContainer (nextRef s) # inserted s,
             existingSecondaryInput := True,
             nextRef := Suc (nextRef s)\<rparr>)"

definition registerInputHandler :: "ref option \<Rightarrow> state \<Rightarrow> state" where
  "registerInputHandler input s =
     (case input of
        None \<Rightarrow> s
      | Some r \<Rightarrow> s\<lparr>keydownListeners := (keydownListeners s)(r := Suc (keydownListeners s r))\<rparr>)"

definition registerSearchHandlers :: "state \<Rightarrow> state" where
  "registerSearchHandlers s = registerInputHandler (secondaryInput s) s"

text \<open>
  \<open>document.querySelector('.graph-controls .search-input-container input')\<close> answers with
  the first match in document order: the host's native input when there is one, else the
  input of a container that the plugin itself has inserted (it carries the class
  \<open>search-input-container\<close> and sits inside the graph controls).
\<close>

fun firstSearchInput :: "node list \<Rightarrow> ref option" where
  "firstSearchInput [] = None"
| "firstSearchInput (SearchInputContainer r # ns) = Some r"
| "firstSearchInput (PillsContainer c # ns) = firstSearchInput ns"

definition querySearchInput :: "state \<Rightarrow> ref option" where
  "querySearchInput s =
     (case nativeInput s of Some r \<Rightarrow> Some r | None \<Rightarrow> firstSearchInput (inserted s))"

definition initializeMainInput :: "state \<Rightarrow> state" where
  "initializeMainInput s =
     (case querySearchInput s of
        None \<Rightarrow> s\<lparr>searchInput := None\<rparr>
      | Some r \<Rightarrow> s\<lparr>searchInput := Some r,
                    inputListeners := (inputListeners s)(r := Suc (inputListeners s r))\<rparr>)"

text \<open>
  The pills that \<open>renderPills\<close> creates, one for every filter: the \<open>data-index\<close> of its
  input is the index of the filter, and \<open>input.value = filter\<close> gives the input the
  filter as its text, less the line breaks.
\<close>

definition pillsFor :: "jsstring list \<Rightarrow> pill list" where
  "pillsFor fs =
     map (\<lambda>(i, f). \<lparr>dataIndex = i, pillValue = stripNewlines f\<rparr>) (enumerate 0 fs)"

text \<open>
  \<open>this.filtersContainer?.empty()\<close> tolerates a container that was never created;
  \<open>this.filtersContainer.createDiv\<close> in the loop body does not, and the loop body runs
  once the filter list has an entry.
\<close>

definition renderPills :: "state \<Rightarrow> outcome" where
  "renderPills s =
     (case filtersContainer s of
        Some c \<Rightarrow> Inr (s\<lparr>pills := (pills s)(c := pillsFor (filters s))\<rparr>)
      | None \<Rightarrow> if filters s = [] then Inr s else Inl (TypeError, s))"

definition handleSearchInputChange :: "state \<Rightarrow> outcome" where
  "handleSearchInputChange s =
     (case searchInput s of
        None \<Rightarrow> Inr s
      | Some r \<Rightarrow>
          if JSON_stringify (newFilters (inputValue s r)) \<noteq> JSON_stringify (filters s)
          then renderPills (saveSettings (s\<lparr>filters := newFilters (inputValue s r)\<rparr>))
          else Inr s)"

text \<open>
  \<open>dispatchEvent\<close> runs the listeners of the target before it returns.  Every run of
  \<open>initializeMainInput\<close> that finds the input adds one more \<open>input\<close> listener calling
  \<open>handleSearchInputChange\<close>; an exception thrown by a listener is reported and not
  passed on to the dispatcher.  The host's own listeners on the element are taken to
  leave its text and the plugin alone.
\<close>

fun dispatchInput :: "nat \<Rightarrow> state \<Rightarrow> state" where
  "dispatchInput 0 s = s"
| "dispatchInput (Suc n) s = dispatchInput n (stateOf (handleSearchInputChange s))"

text \<open>
  \<open>this.searchInput.value = combinedQuery\<close> leaves the input with the joined filters
  less their line breaks, and it is that text which the listeners of the \<open>input\<close> event
  read back.  The \<open>change\<close> event that follows ten milliseconds later has no listener
  of the plugin and is left to the host.
\<close>

definition updateSearchQuery :: "state \<Rightarrow> state" where
  "updateSearchQuery s =
     (case searchInput s of
        None \<Rightarrow> s
      | Some r \<Rightarrow>
          dispatchInput (inputListeners s r)
            (s\<lparr>inputValue :=
                 (inputValue s)(r := stripNewlines (join delimiter (filters s)))\<rparr>))"

definition handleNewFilter :: "ref option \<Rightarrow> state \<Rightarrow> outcome" where
  "handleNewFilter sourceInput s =
     (case (case sourceInput of Some r \<Rightarrow> Some r | None \<Rightarrow> searchInput s) of
        None \<Rightarrow> Inr s
      | Some input \<Rightarrow>
          if trim (inputValue s input) \<noteq> []
          then renderPills (updateSearchQuery (saveSettings
                 (s\<lparr>filters := filters s @ [trim (inputValue s input)],
                    inputValue := (inputValue s)(input := [])\<rparr>)))
          else Inr s)"

text \<open>
  \<open>Array.prototype.splice(index, 1)\<close>: a negative index counts from the end and is
  clamped to the front, an index beyond the end is clamped to the end, where nothing is
  left to delete.
\<close>

definition splice1 :: "int \<Rightarrow> 'a list \<Rightarrow> 'a list" where
  "splice1 index xs =
     (let len = int (length xs);
          start = nat (if index < 0 then max (len + index) 0 else min index len)
      in take start xs @ drop (Suc start) xs)"

definition removeFilter :: "int \<Rightarrow> state \<Rightarrow> outcome" where
  "removeFilter index s =
     renderPills (updateSearchQuery (saveSettings (s\<lparr>filters := splice1 index (filters s)\<rparr>)))"

text \<open>
  The function that \<open>initializeDebouncer\<close> hands to the host's \<open>debounce\<close>; this is what
  runs when the debouncer lets an edit through.
\<close>

definition debouncedUpdate :: "int \<Rightarrow> jsstring \<Rightarrow> state \<Rightarrow> state" where
  "debouncedUpdate index v s =
     (if index \<ge> 0 \<and> index < int (length (filters s))
      then updateSearchQuery (saveSettings (s\<lparr>filters := (filters s)[nat index := trim v]\<rparr>))
      else s)"

text \<open>Modelled from the spec: the host's \<open>debounce\<close>, which \<open>initializeDebouncer\<close>
  calls as \<open>debounce(callback, 300, true)\<close> and which is not code of this repository.
  The specification describes a fixed window of 300 milliseconds with a leading-edge
  trigger: the first edit of a burst fires immediately, and later ones within the window
  are coalesced.  \<open>windowEnds\<close> is what happens when the window has run out.  Whether
  the coalesced edits are then applied, as one edit with the latest index and text, or
  are dropped, the specification does not say; \<open>trailing\<close> stands for the first
  reading, its negation for the second.
\<close>

definition windowEnds :: "bool \<Rightarrow> (int \<times> jsstring) option \<Rightarrow> state \<Rightarrow> state" where
  "windowEnds trailing coalesced s =
     (case coalesced of
        None \<Rightarrow> s
      | Some (index, v) \<Rightarrow> if trailing then debouncedUpdate index v s else s)"

text \<open>Modelled from the spec: the debounced \<open>editAt\<close>, run on the edits of the pills
  in the order of their times (in milliseconds), each edit a time, an index and a text,
  and then left alone until the window has run out.  \<open>window\<close> is the time of the edit that
  opened the current window, if any, and \<open>coalesced\<close> the latest edit that fell into
  it.  An edit outside a window fires immediately, through \<open>debouncedUpdate\<close>, and
  opens a window; an edit less than 300 milliseconds after the one that opened the window
  is coalesced.
\<close>

fun editAt ::
  "bool \<Rightarrow> nat option \<Rightarrow> (int \<times> jsstring) option \<Rightarrow> (nat \<times> int \<times> jsstring) list
     \<Rightarrow> state \<Rightarrow> state" where
  "editAt trailing window coalesced [] s = windowEnds trailing coalesced s"
| "editAt trailing window coalesced ((t, index, v) # edits) s =
     (if (case window of None \<Rightarrow> False | Some w \<Rightarrow> t < w + 300)
      then editAt trailing window (Some (index, v)) edits s
      else editAt trailing (Some t) None edits
             (debouncedUpdate index v (windowEnds trailing coalesced s)))"

definition initializeComponents :: "state \<Rightarrow> outcome" where
  "initializeComponents s =
     (let s4 = initializeMainInput (registerSearchHandlers (createSecondaryInput
                 (createPillsContainer s)))
      in renderPills
           (case searchInput s4 of
              None \<Rightarrow> s4
            | Some r \<Rightarrow>
                if JSON_stringify (newFilters (inputValue s4 r)) \<noteq> JSON_stringify (filters s4)
                then saveSettings (s4\<lparr>filters := newFilters (inputValue s4 r)\<rparr>)
                else s4))"

text \<open>The listener on \<open>active-leaf-change\<close> that \<open>onload\<close> installs.\<close>

definition activeLeafChange :: "jsstring option \<Rightarrow> state \<Rightarrow> outcome" where
  "activeLeafChange viewType s =
     (if viewType = Some (js ''graph'') \<or> viewType = Some (js ''bookmarks'')
      then initializeComponents (s\<lparr>console := console s @ [ViewType viewType]\<rparr>)
      else Inr (s\<lparr>console := console s @ [ViewType viewType]\<rparr>))"

subsection \<open>Some states\<close>

text \<open>
  \<open>loaded fs\<close> is the plugin right after \<open>onload\<close> with the filter list \<open>fs\<close> loaded, in
  a document that has no graph panel.  \<open>withPanel v\<close> opens the panel, with \<open>v\<close> put into
  its search box.  \<open>attached fs\<close> is the plugin set up on a panel whose search box holds
  the join of \<open>fs\<close>: element 0 is the native input, 1 the pills container and 2 the
  secondary input.
\<close>

definition loaded :: "jsstring list \<Rightarrow> state" where
  "loaded fs =
     \<lparr>filters = fs, filtersContainer = None, searchInput = None, secondaryInput = None,
      existingSecondaryInput = False, savedData = [], controls = False, nativeInput = None,
      inserted = [], inputValue = (\<lambda>r. []), inputListeners = (\<lambda>r. 0),
      keydownListeners = (\<lambda>r. 0), pills = (\<lambda>r. []), nextRef = 0, console = []\<rparr>"

definition withPanel :: "jsstring \<Rightarrow> state \<Rightarrow> state" where
  "withPanel v s =
     s\<lparr>controls := True, nativeInput := Some (nextRef s),
       inputValue := (inputValue s)(nextRef s := stripNewlines v),
       inputListeners := (inputListeners s)(nextRef s := 0),
       keydownListeners := (keydownListeners s)(nextRef s := 0),
       nextRef := Suc (nextRef s)\<rparr>"

definition attached :: "jsstring list \<Rightarrow> state" where
  "attached fs =
     \<lparr>filters = fs, filtersContainer = Some 1, searchInput = Some 0, secondaryInput = Some 2,
      existingSecondaryInput = True, savedData = [], controls = True, nativeInput = Some 0,
      inserted = [SearchInputContainer 2, PillsContainer 1],
      inputValue = (\<lambda>r. [])(0 := stripNewlines (join delimiter fs)),
      inputListeners = (\<lambda>r. 0)(0 := 1),
      keydownListeners = (\<lambda>r. 0)(2 := 1),
      pills = (\<lambda>r. [])(1 := pillsFor fs), nextRef = 3, console = [Adding]\<rparr>"

text \<open>
  The two selectors of the plugin are independent of each other.  \<open>withSearchInput v\<close>
  is a document whose graph controls show a search input, with \<open>v\<close> put into it, where
  \<open>.setting-item.mod-search-setting\<close> matches nothing.  \<open>inputOnly\<close> is the plugin set
  up on such a document with no filters loaded and an empty search input: it holds the
  search input, element 0, with its \<open>input\<close> listener, and nothing else.
\<close>

definition withSearchInput :: "jsstring \<Rightarrow> state \<Rightarrow> state" where
  "withSearchInput v s =
     s\<lparr>nativeInput := Some (nextRef s),
       inputValue := (inputValue s)(nextRef s := stripNewlines v),
       inputListeners := (inputListeners s)(nextRef s := 0),
       keydownListeners := (keydownListeners s)(nextRef s := 0),
       nextRef := Suc (nextRef s)\<rparr>"

definition inputOnly :: state where
  "inputOnly =
     \<lparr>filters = [], filtersContainer = None, searchInput = Some 0, secondaryInput = None,
      existingSecondaryInput = False, savedData = [], controls = False, nativeInput = Some 0,
      inserted = [], inputValue = (\<lambda>r. []), inputListeners = (\<lambda>r. 0)(0 := 1),
      keydownListeners = (\<lambda>r. 0), pills = (\<lambda>r. []), nextRef = 1,
      console = [Guarded True False]\<rparr>"

text \<open>
  The text \<open>v\<close> is put into the input element \<open>r\<close>, typed or pasted by the user or
  assigned to its \<open>value\<close> by a script: the element holds \<open>v\<close> less its line breaks.
\<close>

definition typed :: "ref \<Rightarrow> jsstring \<Rightarrow> state \<Rightarrow> state" where
  "typed r v s = s\<lparr>inputValue := (inputValue s)(r := stripNewlines v)\<rparr>"

text \<open>
  The user types \<open>v\<close> into the input element \<open>r\<close>: the element takes the text and its
  \<open>input\<close> listeners run.
\<close>

definition userInput :: "ref \<Rightarrow> jsstring \<Rightarrow> state \<Rightarrow> state" where
  "userInput r v s = dispatchInput (inputListeners s r) (typed r v s)"

text \<open>The host has rebuilt the panel: what the plugin had inserted is gone.\<close>

definition rebuilt :: "state \<Rightarrow> state" where
  "rebuilt s = s\<lparr>inserted := []\<rparr>"

text \<open>
  What the operations behind the pills and the secondary input rely on: the search input
  the plugin holds carries its \<open>input\<close> listener, and a secondary input comes with a
  pills container.
\<close>

definition wired :: "state \<Rightarrow> bool" where
  "wired s \<longleftrightarrow>
     (case searchInput s of None \<Rightarrow> True | Some r \<Rightarrow> 0 < inputListeners s r)
     \<and> (secondaryInput s = None \<or> filtersContainer s \<noteq> None)"

text \<open>The pills containers and the secondary inputs that a document holds.\<close>

fun pillsContainers :: "node list \<Rightarrow> ref list" where
  "pillsContainers [] = []"
| "pillsContainers (PillsContainer c # ns) = c # pillsContainers ns"
| "pillsContainers (SearchInputContainer r # ns) = pillsContainers ns"

fun secondaryInputs :: "node list \<Rightarrow> ref list" where
  "secondaryInputs [] = []"
| "secondaryInputs (PillsContainer c # ns) = secondaryInputs ns"
| "secondaryInputs (SearchInputContainer r # ns) = r # secondaryInputs ns"

section \<open>Splitting a joined list\<close>

lemma delimiter_explicit:
  "delimiter = [0x20, 0x20, 0x20, 0x41, 0x4E, 0x44, 0x20, 0x20, 0x20]"
  by (simp add: delimiter_def js_def)

lemma delimiter_not_Nil: "delimiter \<noteq> []"
  by (simp add: delimiter_explicit)

text \<open>A text that nowhere holds the separator is one piece.\<close>

lemma split_from_no_match:
  "\<not> sublist sep l \<Longrightarrow> split_from sep piece l = [piece @ l]"
proof (induction l arbitrary: piece)
  case Nil
  then show ?case by simp
next
  case (Cons a l)
  then have "\<not> prefix sep (a # l)" and "\<not> sublist sep l"
    by (auto simp: sublist_Cons_right)
  with Cons.IH [of "piece @ [a]"] show ?case by simp
qed

text \<open>
  When no occurrence of the separator starts inside \<open>l\<close>, the scan of \<open>l @ sep @ rest\<close>
  closes the piece exactly at the end of \<open>l\<close>.
\<close>

lemma split_from_first_match:
  assumes "sep \<noteq> []"
    and "\<forall>k < length l. \<not> prefix sep (drop k l @ sep)"
  shows "split_from sep piece (l @ sep @ rest) = (piece @ l) # split_from sep [] rest"
  using assms(2)
proof (induction l arbitrary: piece)
  case Nil
  from assms(1) obtain c cs where sep: "sep = c # cs" by (cases sep) auto
  have "split_from sep piece (sep @ rest)
      = piece # split_from sep [] (drop (length sep) (sep @ rest))"
    unfolding sep by simp
  then show ?case by simp
next
  case (Cons a l)
  have "\<not> prefix sep ((a # l) @ sep)" using Cons.prems by force
  then have no: "\<not> prefix sep (a # l @ sep @ rest)"
    by (metis append_Cons append_assoc length_append prefix_length_prefix le_add2 prefixI)
  have "\<forall>k < length l. \<not> prefix sep (drop k l @ sep)"
  proof (intro allI impI)
    fix k assume "k < length l"
    then have "Suc k < length (a # l)" by simp
    with Cons.prems have "\<not> prefix sep (drop (Suc k) (a # l) @ sep)" by blast
    then show "\<not> prefix sep (drop k l @ sep)" by simp
  qed
  from Cons.IH [OF this, of "piece @ [a]"] no show ?case by simp
qed

lemma trimmed_last:
  assumes "trim l = l" and "l \<noteq> []"
  shows "\<not> isWhiteSpace (last l)"
proof -
  let ?d = "dropWhile isWhiteSpace (rev (dropWhile isWhiteSpace l))"
  from assms have "rev ?d = l" by (simp add: trim_def)
  then have d: "?d = rev l" by (metis rev_rev_ident)
  with assms(2) have "?d \<noteq> []" by simp
  then have "\<not> isWhiteSpace (hd ?d)" by (rule hd_dropWhile)
  with d assms(2) show ?thesis by (simp add: hd_rev)
qed

text \<open>
  The separator overlaps itself only in its blanks: a proper suffix of it is a prefix of
  it only when the suffix has one, two or three code units.
\<close>

lemma delimiter_border:
  assumes "m < 9" and "0 < m" and "prefix (drop m delimiter) delimiter"
  shows "m = 6 \<or> m = 7 \<or> m = 8"
proof -
  from assms(1,2)
  consider "m = 1" | "m = 2" | "m = 3" | "m = 4" | "m = 5" | "m = 6" | "m = 7" | "m = 8"
    by linarith
  then show ?thesis
    using assms(3) by cases (simp_all add: delimiter_explicit)
qed

lemma no_early_delimiter:
  assumes tr: "trim l = l"
    and nosub: "\<not> sublist delimiter l"
    and nosuf: "\<not> suffix (js ''   AND'') l"
  shows "\<forall>k < length l. \<not> prefix delimiter (drop k l @ delimiter)"
proof (intro allI impI notI)
  fix k assume k: "k < length l" and p: "prefix delimiter (drop k l @ delimiter)"
  define t where "t = drop k l"
  from k have tne: "t \<noteq> []" and lne: "l \<noteq> []" by (auto simp: t_def)
  have suf: "suffix t l" by (simp add: t_def suffix_drop)
  have lastt: "last t = last l" using k by (simp add: t_def)
  have np: "\<not> prefix delimiter t"
    using nosub suf
    by (meson sublist_order.order_trans prefix_imp_sublist suffix_imp_sublist)
  from p np obtain us where us: "delimiter = t @ us" "prefix us delimiter"
    unfolding t_def [symmetric] by (auto simp: prefix_append)
  define m where "m = length t"
  have tm: "t = take m delimiter" and um: "us = drop m delimiter"
    using us(1) unfolding m_def by (metis append_eq_conv_conj)+
  have "us \<noteq> []" using np us(1) by auto
  then have m9: "m < 9" using um by (simp add: delimiter_explicit)
  have m0: "0 < m" using tne by (simp add: m_def)
  from delimiter_border [OF m9 m0] us(2) um have "m = 6 \<or> m = 7 \<or> m = 8" by simp
  then show False
  proof (elim disjE)
    assume "m = 6"
    then have "t = js ''   AND''" using tm by (simp add: delimiter_explicit js_def)
    with suf nosuf show False by simp
  next
    assume "m = 7"
    then have "last t = 0x20" using tm by (simp add: delimiter_explicit)
    with lastt trimmed_last [OF tr lne] show False by (simp add: isWhiteSpace_def)
  next
    assume "m = 8"
    then have "last t = 0x20" using tm by (simp add: delimiter_explicit)
    with lastt trimmed_last [OF tr lne] show False by (simp add: isWhiteSpace_def)
  qed
qed

lemma split_join_delimiter:
  assumes "\<forall>l \<in> set L. trim l = l \<and> \<not> sublist delimiter l"
    and "\<forall>l \<in> set (butlast L). \<not> suffix (js ''   AND'') l"
    and "L \<noteq> []"
  shows "split_from delimiter [] (join delimiter L) = L"
  using assms
proof (induction L)
  case Nil
  then show ?case by simp
next
  case (Cons x L)
  show ?case
  proof (cases L)
    case Nil
    with Cons.prems show ?thesis by (simp add: split_from_no_match)
  next
    case (Cons y ys)
    have x: "trim x = x" "\<not> sublist delimiter x" "\<not> suffix (js ''   AND'') x"
      using Cons.prems Cons by auto
    have rest: "split_from delimiter [] (join delimiter L) = L"
      using Cons.prems Cons by (intro Cons.IH) auto
    show ?thesis
      using split_from_first_match [OF delimiter_not_Nil no_early_delimiter [OF x],
          of "[]" "join delimiter L"] rest Cons
      by simp
  qed
qed

text \<open>
  Joining and splitting again gives the list back, less its empty entries, when every
  entry is trimmed and free of the separator and no entry but the last ends in three
  blanks and \<open>AND\<close>.
\<close>

lemma newFilters_join_filter:
  assumes "\<forall>l \<in> set L. trim l = l \<and> \<not> sublist delimiter l"
    and "\<forall>l \<in> set (butlast L). \<not> suffix (js ''   AND'') l"
  shows "newFilters (join delimiter L) = filter (\<lambda>f. length f > 0) L"
proof (cases "L = []")
  case True
  then show ?thesis by (simp add: newFilters_def split_def delimiter_explicit trim_def)
next
  case False
  have "split delimiter (join delimiter L) = L"
    using split_join_delimiter [of L] assms False delimiter_not_Nil by (simp add: split_def)
  moreover have "map trim L = L" using assms(1) by (simp add: map_idI)
  ultimately show ?thesis by (simp add: newFilters_def)
qed

lemma newFilters_join:
  assumes "\<forall>l \<in> set L. filterTerm l \<and> \<not> sublist delimiter l"
    and "\<forall>l \<in> set (butlast L). \<not> suffix (js ''   AND'') l"
  shows "newFilters (join delimiter L) = L"
proof -
  have "newFilters (join delimiter L) = filter (\<lambda>f. length f > 0) L"
    using assms by (intro newFilters_join_filter) (auto simp: filterTerm_def)
  moreover have "filter (\<lambda>f. length f > 0) L = L"
    using assms(1) by (simp add: filterTerm_def)
  ultimately show ?thesis by simp
qed

text \<open>What the split hands over never holds an empty entry.\<close>

lemma newFilters_nonempty: "[] \<notin> set (newFilters v)"
  by (simp add: newFilters_def)

text \<open>
  Line breaks: the separator has none, so the join of entries that have none goes into an
  input as it is.
\<close>

lemma stripNewlines_append: "stripNewlines (a @ b) = stripNewlines a @ stripNewlines b"
  by (simp add: stripNewlines_def)

lemma stripNewlines_delimiter: "stripNewlines delimiter = delimiter"
  by (simp add: stripNewlines_def delimiter_explicit)

lemma stripNewlines_join:
  "\<forall>l \<in> set L. stripNewlines l = l \<Longrightarrow> stripNewlines (join delimiter L) = join delimiter L"
proof (induction L)
  case Nil
  show ?case by (simp add: stripNewlines_def)
next
  case (Cons x L)
  then show ?case
    by (cases L) (simp_all add: stripNewlines_append stripNewlines_delimiter)
qed

section \<open>Comparing filter lists through their JSON texts\<close>

lemma unhexDigit_hexDigit: "n < 16 \<Longrightarrow> unhexDigit (hexDigit n) = n"
  by (simp add: unhexDigit_def hexDigit_def unat_of_nat)

lemma nibbles_nat:
  fixes n :: nat
  shows "4096 * (n div 4096) + 256 * (n div 256 mod 16) + 16 * (n div 16 mod 16) + n mod 16 = n"
proof -
  have a: "n div 256 = n div 16 div 16" "n div 4096 = n div 256 div 16"
    by (simp_all add: div_mult2_eq)
  show ?thesis
    using div_mult_mod_eq [of n 16] div_mult_mod_eq [of "n div 16" 16]
      div_mult_mod_eq [of "n div 256" 16] a
    by linarith
qed

lemma unhex_UnicodeEscape:
  "of_nat (4096 * unhexDigit (hexDigit (unat c div 4096))
         + 256 * unhexDigit (hexDigit (unat c div 256 mod 16))
         + 16 * unhexDigit (hexDigit (unat c div 16 mod 16))
         + unhexDigit (hexDigit (unat c mod 16))) = (c :: jschar)"
proof -
  have lt: "unat c < 65536" using unsigned_less [of c, where 'a = nat] by simp
  then have d: "unat c div 4096 < 16" by simp
  have m: "k mod 16 < (16::nat)" for k by simp
  have "4096 * unhexDigit (hexDigit (unat c div 4096))
         + 256 * unhexDigit (hexDigit (unat c div 256 mod 16))
         + 16 * unhexDigit (hexDigit (unat c div 16 mod 16))
         + unhexDigit (hexDigit (unat c mod 16)) = unat c"
    by (simp only: unhexDigit_hexDigit [OF d] unhexDigit_hexDigit [OF m] nibbles_nat)
  then show ?thesis by simp
qed

lemma unquote_UnicodeEscape:
  "unquoteBody (UnicodeEscape c @ t) = (let (s, r) = unquoteBody t in (c # s, r))"
  using unhex_UnicodeEscape [of c] by (simp add: UnicodeEscape_def unhex4_def)

lemma shortEscape_inverse:
  "shortEscape c = Some e \<Longrightarrow> unshortEscape e = c \<and> e \<noteq> 0x75"
  by (auto simp: shortEscape_def unshortEscape_def split: if_splits)

lemma shortEscape_None:
  "shortEscape c = None \<Longrightarrow> c \<noteq> 0x22 \<and> c \<noteq> 0x5C"
  by (auto simp: shortEscape_def split: if_splits)

lemma unquote_short:
  "shortEscape c = Some e \<Longrightarrow>
     unquoteBody (0x5C # e # t) = (let (s, r) = unquoteBody t in (c # s, r))"
  using shortEscape_inverse [of c e] by simp

lemma unquote_literal:
  "c \<noteq> 0x22 \<Longrightarrow> c \<noteq> 0x5C \<Longrightarrow>
     unquoteBody (c # t) = (let (s, r) = unquoteBody t in (c # s, r))"
  by simp

lemma surrogate_literal:
  "isLeadingSurrogate c \<or> isTrailingSurrogate c \<Longrightarrow> c \<noteq> 0x22 \<and> c \<noteq> 0x5C"
  by (auto simp: isLeadingSurrogate_def isTrailingSurrogate_def)

text \<open>Reading a quoted body up to its closing quote gives the string back.\<close>

lemma unquote_quoteBody:
  "unquoteBody (quoteBody s @ 0x22 # rest) = (s, rest)"
proof (induction s rule: quoteBody.induct)
  case 1
  then show ?case by simp
next
  case (2 c cs)
  show ?case
  proof (cases "shortEscape c")
    case (Some e)
    with 2 show ?thesis
      using unquote_short [OF Some] by (simp del: unquoteBody.simps)
  next
    case None
    note lit = shortEscape_None [OF None]
    show ?thesis
    proof (cases "c < 0x20")
      case True
      with 2 None show ?thesis
        by (simp add: unquote_UnicodeEscape del: unquoteBody.simps)
    next
      case False
      note nlt = False
      show ?thesis
      proof (cases "isLeadingSurrogate c")
        case True
        show ?thesis
        proof (cases cs)
          case Nil
          with None nlt True show ?thesis
            by (simp add: unquote_UnicodeEscape del: unquoteBody.simps) simp
        next
          case (Cons d ds)
          show ?thesis
          proof (cases "isTrailingSurrogate d")
            case True
            have "unquoteBody (quoteBody ds @ 0x22 # rest) = (ds, rest)"
              using "2.IH" None nlt \<open>isLeadingSurrogate c\<close> Cons True by simp
            then show ?thesis
              using None nlt \<open>isLeadingSurrogate c\<close> Cons True
                unquote_literal [of c] unquote_literal [of d] lit surrogate_literal [of d]
              by (simp del: unquoteBody.simps)
          next
            case False
            have "unquoteBody (quoteBody cs @ 0x22 # rest) = (cs, rest)"
              using "2.IH" None nlt \<open>isLeadingSurrogate c\<close> Cons False by simp
            then show ?thesis
              using None nlt \<open>isLeadingSurrogate c\<close> Cons False
              by (simp add: unquote_UnicodeEscape del: unquoteBody.simps)
          qed
        qed
      next
        case False
        with 2 None nlt lit show ?thesis
          by (simp add: unquote_UnicodeEscape unquote_literal del: unquoteBody.simps)
      qed
    qed
  qed
qed

lemma join_quoted_Cons:
  "join [0x2C] (map QuoteJSONString (x # xs)) @ t =
     0x22 # quoteBody x @ 0x22 #
       (if xs = [] then t else 0x2C # join [0x2C] (map QuoteJSONString xs) @ t)"
  by (cases xs) (simp_all add: QuoteJSONString_def)

lemma join_quoted_inj:
  "join [0x2C] (map QuoteJSONString xs) @ [0x5D] = join [0x2C] (map QuoteJSONString ys) @ [0x5D]
     \<Longrightarrow> xs = ys"
proof (induction xs arbitrary: ys)
  case Nil
  then show ?case by (cases ys) (simp_all only: join_quoted_Cons, simp_all)
next
  case (Cons x xs)
  show ?case
  proof (cases ys)
    case Nil
    with Cons.prems show ?thesis by (simp only: join_quoted_Cons) simp
  next
    case (Cons y ys')
    let ?t = "\<lambda>zs. if zs = [] then [0x5D]
                   else 0x2C # join [0x2C] (map QuoteJSONString zs) @ [0x5D]"
    from Cons.prems Cons
    have "quoteBody x @ 0x22 # ?t xs = quoteBody y @ 0x22 # ?t ys'"
      by (simp only: join_quoted_Cons) simp
    then have "unquoteBody (quoteBody x @ 0x22 # ?t xs)
        = unquoteBody (quoteBody y @ 0x22 # ?t ys')"
      by (rule arg_cong)
    then have xy: "x = y" and t: "?t xs = ?t ys'"
      by (simp_all only: unquote_quoteBody prod.inject)
    have "xs = ys'"
    proof (cases "xs = []")
      case True
      with t show ?thesis by (cases "ys' = []") simp_all
    next
      case False
      with t have "ys' \<noteq> []" by (cases "ys' = []") simp_all
      with t False show ?thesis by (intro Cons.IH) simp
    qed
    with xy Cons show ?thesis by simp
  qed
qed

text \<open>Two filter lists have the same JSON text only when they are the same list.\<close>

lemma JSON_stringify_inj:
  "JSON_stringify xs = JSON_stringify ys \<longleftrightarrow> xs = ys"
proof
  assume "JSON_stringify xs = JSON_stringify ys"
  then have "join [0x2C] (map QuoteJSONString xs) @ [0x5D]
      = join [0x2C] (map QuoteJSONString ys) @ [0x5D]"
    by (simp add: JSON_stringify_def)
  then show "xs = ys" by (rule join_quoted_inj)
qed simp

section \<open>Claim C1: the round trip through the query text\<close>

text \<open>
  As stated, for every list of non-empty trimmed strings, the round trip fails: an entry
  that holds the separator falls apart, and an entry that ends in three blanks and \<open>AND\<close>
  forms a separator with the blanks that follow it in the joined text.
\<close>

theorem C1_counterexample:
  "filterTerm (js ''a   AND   b'')
   \<and> newFilters (join delimiter [js ''a   AND   b'']) = [js ''a'', js ''b'']
   \<and> newFilters (join delimiter [js ''a   AND   b'']) \<noteq> [js ''a   AND   b'']
   \<and> filterTerm (js ''x   AND'') \<and> filterTerm (js ''y'')
   \<and> \<not> sublist delimiter (js ''x   AND'') \<and> \<not> sublist delimiter (js ''y'')
   \<and> newFilters (join delimiter [js ''x   AND'', js ''y'']) = [js ''x'', js ''AND   y'']
   \<and> newFilters (join delimiter [js ''x   AND'', js ''y'']) \<noteq> [js ''x   AND'', js ''y'']"
  by (simp add: filterTerm_def newFilters_def split_def delimiter_def js_def trim_def
      isWhiteSpace_def sublist_Cons_right)

text \<open>
  Claim C1, amended.  For every ordered list \<open>L\<close> of non-empty, whitespace-trimmed strings
  none of which holds the separator and none of which, the last apart, ends in three
  blanks and \<open>AND\<close>: joining \<open>L\<close> with the separator, splitting the result on it, trimming
  each piece and dropping the empty pieces gives \<open>L\<close> back.
\<close>

theorem C1_roundtrip:
  assumes "\<forall>l \<in> set L. filterTerm l \<and> \<not> sublist delimiter l"
    and "\<forall>l \<in> set (butlast L). \<not> suffix (js ''   AND'') l"
  shows "filter (\<lambda>f. length f > 0) (map trim (split delimiter (join delimiter L))) = L"
  using newFilters_join [OF assms] by (simp add: newFilters_def)

theorem C1_roundtrip_witness:
  "filterTerm (js ''a'') \<and> filterTerm (js ''b   AND'')
   \<and> \<not> sublist delimiter (js ''a'') \<and> \<not> sublist delimiter (js ''b   AND'')
   \<and> \<not> suffix (js ''   AND'') (js ''a'')
   \<and> filter (\<lambda>f. length f > 0)
        (map trim (split delimiter (join delimiter [js ''a'', js ''b   AND''])))
       = [js ''a'', js ''b   AND'']"
proof -
  have h: "filterTerm (js ''a'')" "filterTerm (js ''b   AND'')"
    "\<not> sublist delimiter (js ''a'')" "\<not> sublist delimiter (js ''b   AND'')"
    "\<not> suffix (js ''   AND'') (js ''a'')"
    by (simp_all add: filterTerm_def delimiter_def js_def trim_def isWhiteSpace_def
        sublist_Cons_right suffix_def)
  from h C1_roundtrip [of "[js ''a'', js ''b   AND'']"] show ?thesis by simp
qed

section \<open>The plugin on its panel\<close>

text \<open>
  Setting the plugin up on a panel whose search box already holds the join of the loaded
  filters leads to \<open>attached\<close>, provided that text splits back into the loaded list.
  Setting it up with nothing loaded on a document that shows an empty search input but
  no search setting leads to \<open>inputOnly\<close>.
\<close>

lemma attached_reached:
  assumes "newFilters (stripNewlines (join delimiter fs)) = fs"
  shows "initializeComponents (withPanel (join delimiter fs) (loaded fs)) = Inr (attached fs)"
  using assms
  by (simp add: initializeComponents_def withPanel_def loaded_def attached_def
      createPillsContainer_def createSecondaryInput_def registerSearchHandlers_def
      registerInputHandler_def initializeMainInput_def querySearchInput_def renderPills_def
      isConnected_def fun_eq_iff)

text \<open>The pill of a filter that holds a line break shows it without.\<close>

lemma pillsFor_line_break:
  "pillsFor [js ''a'' @ 0x0A # js ''b'', js ''c'']
     = [\<lparr>dataIndex = 0, pillValue = js ''ab''\<rparr>, \<lparr>dataIndex = 1, pillValue = js ''c''\<rparr>]"
  by (simp add: pillsFor_def stripNewlines_def js_def)

lemma newFilters_Nil: "newFilters [] = []"
  by (simp add: newFilters_def split_def delimiter_explicit trim_def)

lemma inputOnly_reached:
  "initializeComponents (withSearchInput [] (loaded [])) = Inr inputOnly"
  by (simp add: initializeComponents_def withSearchInput_def loaded_def inputOnly_def
      createPillsContainer_def createSecondaryInput_def registerSearchHandlers_def
      registerInputHandler_def initializeMainInput_def querySearchInput_def renderPills_def
      stripNewlines_def newFilters_Nil fun_eq_iff)

section \<open>Reconciliation from the native input\<close>

lemma handleSearchInputChange_attached:
  assumes "searchInput s = Some r" and "filtersContainer s = Some c"
  shows "handleSearchInputChange s =
     Inr (if newFilters (inputValue s r) = filters s then s
          else s\<lparr>filters := newFilters (inputValue s r),
                 savedData := newFilters (inputValue s r) # savedData s,
                 pills := (pills s)(c := pillsFor (newFilters (inputValue s r)))\<rparr>)"
  using assms
  by (simp add: handleSearchInputChange_def JSON_stringify_inj renderPills_def saveSettings_def)

text \<open>
  Without a pills container the new list is adopted and saved all the same, and the
  render that follows throws as soon as the new list has an entry.
\<close>

lemma handleSearchInputChange_bare:
  assumes "searchInput s = Some r" and "filtersContainer s = None"
  shows "handleSearchInputChange s =
     (if newFilters (inputValue s r) = filters s then Inr s
      else if newFilters (inputValue s r) = []
      then Inr (s\<lparr>filters := [], savedData := [] # savedData s\<rparr>)
      else Inl (TypeError, s\<lparr>filters := newFilters (inputValue s r),
                              savedData := newFilters (inputValue s r) # savedData s\<rparr>))"
  using assms
  by (simp add: handleSearchInputChange_def JSON_stringify_inj renderPills_def saveSettings_def)

text \<open>A second listener finds nothing left to do.\<close>

lemma handleSearchInputChange_twice:
  "stateOf (handleSearchInputChange (stateOf (handleSearchInputChange s)))
     = stateOf (handleSearchInputChange s)"
  by (auto simp: handleSearchInputChange_def JSON_stringify_inj renderPills_def
      saveSettings_def stateOf_def split: option.splits)

lemma dispatchInput_Suc:
  "dispatchInput (Suc n) s = stateOf (handleSearchInputChange s)"
proof (induction n arbitrary: s)
  case 0
  show ?case by simp
next
  case (Suc n)
  have "dispatchInput (Suc (Suc n)) s
      = dispatchInput (Suc n) (stateOf (handleSearchInputChange s))"
    by simp
  also have "\<dots> = stateOf (handleSearchInputChange (stateOf (handleSearchInputChange s)))"
    by (rule Suc.IH)
  finally show ?case by (simp only: handleSearchInputChange_twice)
qed

lemma dispatchInput_pos:
  "0 < n \<Longrightarrow> dispatchInput n s = stateOf (handleSearchInputChange s)"
  using dispatchInput_Suc [of "n - 1" s] by simp

text \<open>
  What the listener does with a text \<open>v\<close> put into the search input that the plugin
  holds, in every state.  The input holds \<open>v\<close> less its line breaks; that text is split
  on the separator, the pieces are trimmed and the empty ones dropped.  When the list so
  obtained is the filter list, nothing changes.  Otherwise it becomes the filter list and
  is saved; with a pills container the pills are rendered from it; without one the render
  throws, unless the new list is empty.
\<close>

lemma reconcile_typed:
  fixes s :: state and r :: ref and v :: jsstring
  assumes "searchInput s = Some r"
  defines "nf \<equiv> newFilters (stripNewlines v)"
  shows "handleSearchInputChange (typed r v s) =
     (if nf = filters s then Inr (typed r v s)
      else case filtersContainer s of
             Some c \<Rightarrow>
               Inr ((typed r v s)\<lparr>filters := nf, savedData := nf # savedData s,
                                  pills := (pills s)(c := pillsFor nf)\<rparr>)
           | None \<Rightarrow>
               if nf = [] then Inr ((typed r v s)\<lparr>filters := [], savedData := [] # savedData s\<rparr>)
               else Inl (TypeError, (typed r v s)\<lparr>filters := nf, savedData := nf # savedData s\<rparr>))"
proof (cases "filtersContainer s")
  case None
  have a: "searchInput (typed r v s) = Some r" "filtersContainer (typed r v s) = None"
    using assms(1) None by (simp_all add: typed_def)
  show ?thesis
    unfolding handleSearchInputChange_bare [OF a]
    using None by (simp add: typed_def nf_def)
next
  case (Some c)
  have a: "searchInput (typed r v s) = Some r" "filtersContainer (typed r v s) = Some c"
    using assms(1) Some by (simp_all add: typed_def)
  show ?thesis
    unfolding handleSearchInputChange_attached [OF a]
    using Some by (simp add: typed_def nf_def)
qed

text \<open>
  However many listeners the setups have left on the input, typing comes to one
  reconciliation; an exception of the listener is not passed on.
\<close>

lemma userInput_reconciles:
  "0 < inputListeners s r \<Longrightarrow> userInput r v s = stateOf (handleSearchInputChange (typed r v s))"
  by (simp add: userInput_def dispatchInput_pos)

text \<open>
  Claim C2 wants every text written into the native search input to be reconciled into
  the filter list, saved and rendered as pills.  The code does that only where the plugin
  holds a pills container, and it comes to hold the search input without one: the setup
  looks for the input and for the search setting independently, and adds its listener to
  the input also when the search setting, and with it the pills container, is missing.
  Set up that way with no filters (\<open>inputOnly\<close>), the plugin sees
  \<open>x   AND   y   AND   \<close> written into the search input: the listener adopts the
  filters \<open>x\<close> and \<open>y\<close>, saves them, and the render throws a TypeError on the
  container that is not there; no pill is rendered.  It is the same with the text
  \<open> x   AND    y<LF>z   AND   \<close>, which the input holds without the line feed and whose
  pieces need trimming; on the attached plugin with the filter \<open>a\<close>, that text is
  reconciled as the claim has it, into the filters \<open>x\<close> and \<open>yz\<close>, one write and
  two pills.
\<close>

theorem C2_reconcile_throws:
  "initializeComponents (withSearchInput [] (loaded [])) = Inr inputOnly
   \<and> handleSearchInputChange (typed 0 (js ''x   AND   y   AND   '') inputOnly) =
       Inl (TypeError,
            (typed 0 (js ''x   AND   y   AND   '') inputOnly)
              \<lparr>filters := [js ''x'', js ''y''], savedData := [[js ''x'', js ''y'']]\<rparr>)
   \<and> userInput 0 (js ''x   AND   y   AND   '') inputOnly =
       (typed 0 (js ''x   AND   y   AND   '') inputOnly)
         \<lparr>filters := [js ''x'', js ''y''], savedData := [[js ''x'', js ''y'']]\<rparr>
   \<and> pills (userInput 0 (js ''x   AND   y   AND   '') inputOnly) = (\<lambda>r. [])
   \<and> inputValue (typed 0 (js '' x   AND    y'' @ 0x0A # js ''z   AND   '') inputOnly) 0 = js '' x   AND    yz   AND   ''
   \<and> handleSearchInputChange (typed 0 (js '' x   AND    y'' @ 0x0A # js ''z   AND   '') inputOnly) =
       Inl (TypeError,
            (typed 0 (js '' x   AND    y'' @ 0x0A # js ''z   AND   '') inputOnly)
              \<lparr>filters := [js ''x'', js ''yz''], savedData := [[js ''x'', js ''yz'']]\<rparr>)
   \<and> handleSearchInputChange (typed 0 (js '' x   AND    y'' @ 0x0A # js ''z   AND   '') (attached [js ''a''])) =
       Inr ((typed 0 (js '' x   AND    y'' @ 0x0A # js ''z   AND   '') (attached [js ''a'']))
              \<lparr>filters := [js ''x'', js ''yz''],
               savedData := [[js ''x'', js ''yz'']],
               pills := (pills (attached [js ''a'']))
                 (1 := [\<lparr>dataIndex = 0, pillValue = js ''x''\<rparr>,
                        \<lparr>dataIndex = 1, pillValue = js ''yz''\<rparr>])\<rparr>)"
proof -
  let ?v = "js ''x   AND   y   AND   ''" and ?w = "js '' x   AND    y'' @ 0x0A # js ''z   AND   ''"
  let ?s = "typed 0 ?v inputOnly" and ?t = "typed 0 ?w inputOnly"
  let ?u = "typed 0 ?w (attached [js ''a''])"
  have a: "searchInput inputOnly = Some 0" "filtersContainer inputOnly = None"
    "filters inputOnly = []" "savedData inputOnly = []" "0 < inputListeners inputOnly 0"
    by (simp_all add: inputOnly_def)
  have h: "searchInput (attached [js ''a'']) = Some 0"
    "filtersContainer (attached [js ''a'']) = Some 1"
    "filters (attached [js ''a'']) = [js ''a'']" "savedData (attached [js ''a'']) = []"
    by (simp_all add: attached_def)
  have x: "newFilters (stripNewlines ?v) = [js ''x'', js ''y'']"
    "newFilters (stripNewlines ?w) = [js ''x'', js ''yz'']"
    by (simp_all add: newFilters_def split_def delimiter_def js_def trim_def isWhiteSpace_def
        stripNewlines_def)
  have p: "pillsFor [js ''x'', js ''yz'']
      = [\<lparr>dataIndex = 0, pillValue = js ''x''\<rparr>, \<lparr>dataIndex = 1, pillValue = js ''yz''\<rparr>]"
    by (simp add: pillsFor_def stripNewlines_def js_def)
  have ne: "[js ''x'', js ''yz''] \<noteq> [js ''a'']" by simp
  have 2: "handleSearchInputChange ?s =
       Inl (TypeError, ?s\<lparr>filters := [js ''x'', js ''y''], savedData := [[js ''x'', js ''y'']]\<rparr>)"
    unfolding reconcile_typed [OF a(1)] x a(2-4) by simp
  have 3: "userInput 0 ?v inputOnly =
       ?s\<lparr>filters := [js ''x'', js ''y''], savedData := [[js ''x'', js ''y'']]\<rparr>"
    unfolding userInput_reconciles [OF a(5)] 2 by (simp add: stateOf_def)
  have 4: "pills (userInput 0 ?v inputOnly) = (\<lambda>r. [])"
    unfolding 3 by (simp add: typed_def inputOnly_def)
  have 5: "inputValue ?t 0 = js '' x   AND    yz   AND   ''"
    by (simp add: typed_def stripNewlines_def js_def)
  have 6: "handleSearchInputChange ?t =
       Inl (TypeError, ?t\<lparr>filters := [js ''x'', js ''yz''], savedData := [[js ''x'', js ''yz'']]\<rparr>)"
    unfolding reconcile_typed [OF a(1)] x a(2-4) by simp
  have 7: "handleSearchInputChange ?u =
       Inr (?u\<lparr>filters := [js ''x'', js ''yz''], savedData := [[js ''x'', js ''yz'']],
               pills := (pills (attached [js ''a'']))
                 (1 := [\<lparr>dataIndex = 0, pillValue = js ''x''\<rparr>,
                        \<lparr>dataIndex = 1, pillValue = js ''yz''\<rparr>])\<rparr>)"
    unfolding reconcile_typed [OF h(1)] x h(2-4) p by (simp add: ne)
  from inputOnly_reached 2 3 4 5 6 7 show ?thesis by (intro conjI)
qed

section \<open>Writing the derived query text\<close>

lemma updateSearchQuery_detached:
  "searchInput s = None \<Longrightarrow> updateSearchQuery s = s"
  by (simp add: updateSearchQuery_def)

text \<open>
  With a native input that carries the plugin's listener, writing the query text brings
  the reconciliation with it: the filter list ends as what the text in the input, the
  join less its line breaks, splits into.
\<close>

lemma updateSearchQuery_attached:
  fixes s :: state and r c :: ref
  assumes "searchInput s = Some r" and "0 < inputListeners s r" and "filtersContainer s = Some c"
  defines "written \<equiv> stripNewlines (join delimiter (filters s))"
  shows "updateSearchQuery s =
     (if newFilters written = filters s
      then s\<lparr>inputValue := (inputValue s)(r := written)\<rparr>
      else s\<lparr>inputValue := (inputValue s)(r := written),
             filters := newFilters written,
             savedData := newFilters written # savedData s,
             pills := (pills s)(c := pillsFor (newFilters written))\<rparr>)"
proof -
  let ?s1 = "s\<lparr>inputValue := (inputValue s)(r := written)\<rparr>"
  have "updateSearchQuery s = stateOf (handleSearchInputChange ?s1)"
    using assms(1,2) by (simp add: updateSearchQuery_def dispatchInput_pos written_def)
  also have "handleSearchInputChange ?s1 =
     Inr (if newFilters (inputValue ?s1 r) = filters ?s1 then ?s1
          else ?s1\<lparr>filters := newFilters (inputValue ?s1 r),
                 savedData := newFilters (inputValue ?s1 r) # savedData ?s1,
                 pills := (pills ?s1)(c := pillsFor (newFilters (inputValue ?s1 r)))\<rparr>)"
    using assms(1,3) by (intro handleSearchInputChange_attached) simp_all
  finally show ?thesis by (simp add: stateOf_def)
qed

section \<open>Claim C3: appending a filter\<close>

lemma handleNewFilter_attached:
  fixes s :: state and r c src :: ref and v :: jsstring
  assumes "searchInput s = Some r" and "0 < inputListeners s r" and "filtersContainer s = Some c"
    and "trim (stripNewlines v) \<noteq> []"
  defines "pushed \<equiv> filters s @ [trim (stripNewlines v)]"
  defines "written \<equiv> stripNewlines (join delimiter pushed)"
  defines "s1 \<equiv> s\<lparr>inputValue := (inputValue s)(src := [], r := written)\<rparr>"
  shows "handleNewFilter (Some src) (typed src v s) =
          Inr (if newFilters written = pushed
               then s1\<lparr>filters := pushed, savedData := pushed # savedData s,
                       pills := (pills s)(c := pillsFor pushed)\<rparr>
               else s1\<lparr>filters := newFilters written,
                       savedData := newFilters written # pushed # savedData s,
                       pills := (pills s)(c := pillsFor (newFilters written))\<rparr>)"
proof -
  define sA where "sA = s\<lparr>filters := pushed, inputValue := (inputValue s)(src := []),
      savedData := pushed # savedData s\<rparr>"
  have fields: "searchInput sA = Some r" "0 < inputListeners sA r" "filtersContainer sA = Some c"
    using assms(1-3) by (simp_all add: sA_def)
  have h: "handleNewFilter (Some src) (typed src v s) = renderPills (updateSearchQuery sA)"
    using assms(4)
    by (simp add: handleNewFilter_def typed_def saveSettings_def sA_def pushed_def)
  show ?thesis
    unfolding h updateSearchQuery_attached [OF fields]
    using assms(3) by (simp add: renderPills_def sA_def s1_def written_def)
qed

lemma handleNewFilter_empty:
  "trim (stripNewlines v) = [] \<Longrightarrow>
     handleNewFilter (Some src) (typed src v s) = Inr (typed src v s)"
  by (simp add: handleNewFilter_def typed_def)

text \<open>
  As stated, the filter list does not always end as the old list with the trimmed text
  pushed: the query text written into the native input is read back by the plugin's own
  \<open>input\<close> listener, and a pushed entry that holds the separator comes back in pieces.
  Here the plugin is attached to a panel with no filters, and \<open>a   AND   b\<close> is
  committed from the secondary input.
\<close>

theorem C3_counterexample:
  "trim (js ''a   AND   b'') = js ''a   AND   b''
   \<and> filters (attached []) @ [trim (js ''a   AND   b'')] = [js ''a   AND   b'']
   \<and> filters (stateOf (handleNewFilter (Some 2) (typed 2 (js ''a   AND   b'') (attached []))))
       = [js ''a'', js ''b'']
   \<and> filters (stateOf (handleNewFilter (Some 2) (typed 2 (js ''a   AND   b'') (attached []))))
       \<noteq> filters (attached []) @ [trim (js ''a   AND   b'')]
   \<and> savedData (stateOf (handleNewFilter (Some 2) (typed 2 (js ''a   AND   b'') (attached []))))
       = [[js ''a'', js ''b''], [js ''a   AND   b'']]"
proof -
  have t: "trim (js ''a   AND   b'') = js ''a   AND   b''"
    by (simp add: js_def trim_def isWhiteSpace_def)
  have st: "stripNewlines (js ''a   AND   b'') = js ''a   AND   b''"
    by (simp add: js_def stripNewlines_def)
  have ne: "trim (stripNewlines (js ''a   AND   b'')) \<noteq> []" unfolding st t by (simp add: js_def)
  have a: "searchInput (attached []) = Some 0" "0 < inputListeners (attached []) 0"
    "filtersContainer (attached []) = Some 1" "filters (attached []) = []"
    "savedData (attached []) = []"
    by (simp_all add: attached_def)
  have n: "newFilters (js ''a   AND   b'') = [js ''a'', js ''b'']"
    by (simp add: newFilters_def split_def delimiter_def js_def trim_def isWhiteSpace_def)
  have d: "[js ''a'', js ''b''] \<noteq> [js ''a   AND   b'']" by (simp add: js_def)
  show ?thesis
    unfolding handleNewFilter_attached [OF a(1-3) ne] a(4,5) st t
    by (simp add: n d st stateOf_def)
qed

text \<open>
  Claim C3, amended.  On a plugin that holds the native input (with its listener) and a
  pills container, for every string \<open>v\<close> put into the source input \<open>src\<close>: \<open>append\<close>
  trims the text of the input; if the trimmed string is empty, nothing changes, neither
  the filter list nor what has been saved; otherwise the trimmed string is pushed onto
  the end of the filter list, the source input is cleared, the pushed list is saved and
  its join with the separator is written into the native input, which holds it less its
  line breaks.  The \<open>input\<close> event dispatched on the native input then reconciles the
  filter list from that text: the filter list ends as what the text splits into, and
  where that differs from the pushed list it is saved once more.  It is the pushed list,
  saved once, whenever all its entries are non-empty, trimmed, free of the separator and
  of line breaks, and no old entry ends in three blanks and \<open>AND\<close>; so appending
  \<open> b \<close> to the list \<open>a\<close> gives \<open>a\<close>, \<open>b\<close> with the derived text \<open>a   AND   b\<close>.
\<close>

theorem C3_append:
  fixes s :: state and r c src :: ref and v :: jsstring
  assumes "searchInput s = Some r" and "0 < inputListeners s r" and "filtersContainer s = Some c"
  defines "pushed \<equiv> filters s @ [trim (stripNewlines v)]"
  defines "written \<equiv> stripNewlines (join delimiter pushed)"
  defines "s1 \<equiv> s\<lparr>inputValue := (inputValue s)(src := [], r := written)\<rparr>"
  shows "(trim (stripNewlines v) = [] \<longrightarrow>
            handleNewFilter (Some src) (typed src v s) = Inr (typed src v s))
    \<and> (trim (stripNewlines v) \<noteq> [] \<longrightarrow> handleNewFilter (Some src) (typed src v s) =
          Inr (if newFilters written = pushed
               then s1\<lparr>filters := pushed, savedData := pushed # savedData s,
                       pills := (pills s)(c := pillsFor pushed)\<rparr>
               else s1\<lparr>filters := newFilters written,
                       savedData := newFilters written # pushed # savedData s,
                       pills := (pills s)(c := pillsFor (newFilters written))\<rparr>))
    \<and> (trim (stripNewlines v) \<noteq> []
          \<and> (\<forall>l \<in> set pushed. filterTerm l \<and> \<not> sublist delimiter l \<and> stripNewlines l = l)
          \<and> (\<forall>l \<in> set (filters s). \<not> suffix (js ''   AND'') l) \<longrightarrow>
          written = join delimiter pushed
          \<and> filters (stateOf (handleNewFilter (Some src) (typed src v s))) = pushed
          \<and> savedData (stateOf (handleNewFilter (Some src) (typed src v s)))
              = pushed # savedData s)
    \<and> (filters s = [js ''a''] \<and> v = js '' b '' \<longrightarrow>
          filters (stateOf (handleNewFilter (Some src) (typed src v s))) = [js ''a'', js ''b'']
          \<and> inputValue (stateOf (handleNewFilter (Some src) (typed src v s))) r
              = js ''a   AND   b''
          \<and> savedData (stateOf (handleNewFilter (Some src) (typed src v s)))
              = [js ''a'', js ''b''] # savedData s
          \<and> pills (stateOf (handleNewFilter (Some src) (typed src v s))) c
              = [\<lparr>dataIndex = 0, pillValue = js ''a''\<rparr>, \<lparr>dataIndex = 1, pillValue = js ''b''\<rparr>])"
proof -
  note main = handleNewFilter_attached [OF assms(1-3), of v src, folded pushed_def,
      folded written_def, folded s1_def]
  have rt: "trim (stripNewlines v) \<noteq> []
          \<and> (\<forall>l \<in> set pushed. filterTerm l \<and> \<not> sublist delimiter l \<and> stripNewlines l = l)
          \<and> (\<forall>l \<in> set (filters s). \<not> suffix (js ''   AND'') l) \<longrightarrow>
          written = join delimiter pushed
          \<and> filters (stateOf (handleNewFilter (Some src) (typed src v s))) = pushed
          \<and> savedData (stateOf (handleNewFilter (Some src) (typed src v s)))
              = pushed # savedData s"
  proof (intro impI, elim conjE)
    assume ne: "trim (stripNewlines v) \<noteq> []"
      and 1: "\<forall>l \<in> set pushed. filterTerm l \<and> \<not> sublist delimiter l \<and> stripNewlines l = l"
      and 2: "\<forall>l \<in> set (filters s). \<not> suffix (js ''   AND'') l"
    have w: "written = join delimiter pushed"
      unfolding written_def using 1 by (intro stripNewlines_join) simp
    have "butlast pushed = filters s" by (simp add: pushed_def)
    with 1 2 have "newFilters (join delimiter pushed) = pushed"
      by (intro newFilters_join) simp_all
    with w have "newFilters written = pushed" by simp
    with w show "written = join delimiter pushed
          \<and> filters (stateOf (handleNewFilter (Some src) (typed src v s))) = pushed
          \<and> savedData (stateOf (handleNewFilter (Some src) (typed src v s)))
              = pushed # savedData s"
      unfolding main [OF ne] by (simp add: stateOf_def s1_def)
  qed
  have b: "trim (stripNewlines (js '' b '')) = js ''b''"
    by (simp add: js_def trim_def isWhiteSpace_def stripNewlines_def)
  have ab: "newFilters (stripNewlines (join delimiter [js ''a'', js ''b'']))
      = [js ''a'', js ''b'']"
    "stripNewlines (join delimiter [js ''a'', js ''b'']) = js ''a   AND   b''"
    "newFilters (js ''a   AND   b'') = [js ''a'', js ''b'']"
    by (simp_all add: newFilters_def split_def delimiter_def js_def trim_def isWhiteSpace_def
        stripNewlines_def)
  have p: "pillsFor [js ''a'', js ''b'']
      = [\<lparr>dataIndex = 0, pillValue = js ''a''\<rparr>, \<lparr>dataIndex = 1, pillValue = js ''b''\<rparr>]"
    by (simp add: pillsFor_def stripNewlines_def js_def)
  have ex: "filters s = [js ''a''] \<and> v = js '' b '' \<longrightarrow>
          filters (stateOf (handleNewFilter (Some src) (typed src v s))) = [js ''a'', js ''b'']
          \<and> inputValue (stateOf (handleNewFilter (Some src) (typed src v s))) r
              = js ''a   AND   b''
          \<and> savedData (stateOf (handleNewFilter (Some src) (typed src v s)))
              = [js ''a'', js ''b''] # savedData s
          \<and> pills (stateOf (handleNewFilter (Some src) (typed src v s))) c
              = [\<lparr>dataIndex = 0, pillValue = js ''a''\<rparr>, \<lparr>dataIndex = 1, pillValue = js ''b''\<rparr>]"
  proof (intro impI, elim conjE)
    assume f: "filters s = [js ''a'']" and v: "v = js '' b ''"
    have q: "pushed = [js ''a'', js ''b'']" by (simp add: pushed_def f v b)
    have ne: "trim (stripNewlines v) \<noteq> []" unfolding v b by (simp add: js_def)
    have w: "written = js ''a   AND   b''" "newFilters written = [js ''a'', js ''b'']"
      unfolding written_def q by (rule ab(2), rule ab(1))
    show "filters (stateOf (handleNewFilter (Some src) (typed src v s))) = [js ''a'', js ''b'']
          \<and> inputValue (stateOf (handleNewFilter (Some src) (typed src v s))) r
              = js ''a   AND   b''
          \<and> savedData (stateOf (handleNewFilter (Some src) (typed src v s)))
              = [js ''a'', js ''b''] # savedData s
          \<and> pills (stateOf (handleNewFilter (Some src) (typed src v s))) c
              = [\<lparr>dataIndex = 0, pillValue = js ''a''\<rparr>, \<lparr>dataIndex = 1, pillValue = js ''b''\<rparr>]"
      unfolding main [OF ne] s1_def w(1) q p by (simp add: stateOf_def ab(3))
  qed
  from main handleNewFilter_empty [of v src s] rt ex show ?thesis by blast
qed

theorem C3_append_witness:
  "searchInput (attached [js ''a'']) = Some 0
   \<and> 0 < inputListeners (attached [js ''a'']) 0
   \<and> filtersContainer (attached [js ''a'']) = Some 1
   \<and> filters (attached [js ''a'']) = [js ''a'']
   \<and> savedData (attached [js ''a'']) = []
   \<and> filters (stateOf (handleNewFilter (Some 2) (typed 2 (js '' b '') (attached [js ''a'']))))
       = [js ''a'', js ''b'']
   \<and> inputValue (stateOf (handleNewFilter (Some 2) (typed 2 (js '' b '') (attached [js ''a''])))) 0
       = js ''a   AND   b''
   \<and> savedData (stateOf (handleNewFilter (Some 2) (typed 2 (js '' b '') (attached [js ''a'']))))
       = [[js ''a'', js ''b'']]
   \<and> pills (stateOf (handleNewFilter (Some 2) (typed 2 (js '' b '') (attached [js ''a''])))) 1
       = [\<lparr>dataIndex = 0, pillValue = js ''a''\<rparr>, \<lparr>dataIndex = 1, pillValue = js ''b''\<rparr>]
   \<and> trim (stripNewlines (js ''   '')) = []
   \<and> handleNewFilter (Some 2) (typed 2 (js ''   '') (attached [js ''a'']))
       = Inr (typed 2 (js ''   '') (attached [js ''a'']))
   \<and> trim (stripNewlines []) = []
   \<and> handleNewFilter (Some 2) (typed 2 [] (attached [js ''a'']))
       = Inr (typed 2 [] (attached [js ''a'']))
   \<and> trim (stripNewlines (js '' b'' @ 0x0D # 0x0A # js ''c '')) = js ''bc''
   \<and> filters (stateOf (handleNewFilter (Some 2)
         (typed 2 (js '' b'' @ 0x0D # 0x0A # js ''c '') (attached [js ''a'']))))
       = [js ''a'', js ''bc'']
   \<and> inputValue (stateOf (handleNewFilter (Some 2)
         (typed 2 (js '' b'' @ 0x0D # 0x0A # js ''c '') (attached [js ''a''])))) 0
       = js ''a   AND   bc''"
proof -
  have a: "searchInput (attached [js ''a'']) = Some 0"
    "0 < inputListeners (attached [js ''a'']) 0"
    "filtersContainer (attached [js ''a'']) = Some 1"
    by (simp_all add: attached_def)
  have f: "filters (attached [js ''a'']) = [js ''a'']" "savedData (attached [js ''a'']) = []"
    by (simp_all add: attached_def)
  have t: "trim (stripNewlines (js ''   '')) = []" "trim (stripNewlines []) = []"
    by (simp_all add: js_def trim_def isWhiteSpace_def stripNewlines_def)
  let ?u = "js '' b'' @ 0x0D # 0x0A # js ''c ''"
  have tb: "trim (stripNewlines ?u) = js ''bc''"
    by (simp add: js_def trim_def isWhiteSpace_def stripNewlines_def)
  have ne: "js ''bc'' \<noteq> []" by (simp add: js_def)
  have wb: "stripNewlines (js ''a'' @ delimiter @ js ''bc'') = js ''a   AND   bc''"
    "newFilters (js ''a   AND   bc'') = [js ''a'', js ''bc'']"
    by (simp_all add: newFilters_def split_def delimiter_def js_def trim_def isWhiteSpace_def
        stripNewlines_def)
  from C3_append [OF a, of ?u 2]
  have lb: "filters (stateOf (handleNewFilter (Some 2) (typed 2 ?u (attached [js ''a'']))))
       = [js ''a'', js ''bc'']
   \<and> inputValue (stateOf (handleNewFilter (Some 2) (typed 2 ?u (attached [js ''a''])))) 0
       = js ''a   AND   bc''"
    unfolding f tb by (simp add: ne wb stateOf_def)
  from C3_append [OF a, of "js '' b ''" 2] C3_append [OF a, of "js ''   ''" 2]
    C3_append [OF a, of "[]" 2] a f t
  have "searchInput (attached [js ''a'']) = Some 0
   \<and> 0 < inputListeners (attached [js ''a'']) 0
   \<and> filtersContainer (attached [js ''a'']) = Some 1
   \<and> filters (attached [js ''a'']) = [js ''a'']
   \<and> savedData (attached [js ''a'']) = []
   \<and> filters (stateOf (handleNewFilter (Some 2) (typed 2 (js '' b '') (attached [js ''a'']))))
       = [js ''a'', js ''b'']
   \<and> inputValue (stateOf (handleNewFilter (Some 2) (typed 2 (js '' b '') (attached [js ''a''])))) 0
       = js ''a   AND   b''
   \<and> savedData (stateOf (handleNewFilter (Some 2) (typed 2 (js '' b '') (attached [js ''a'']))))
       = [[js ''a'', js ''b'']]
   \<and> pills (stateOf (handleNewFilter (Some 2) (typed 2 (js '' b '') (attached [js ''a''])))) 1
       = [\<lparr>dataIndex = 0, pillValue = js ''a''\<rparr>, \<lparr>dataIndex = 1, pillValue = js ''b''\<rparr>]
   \<and> trim (stripNewlines (js ''   '')) = []
   \<and> handleNewFilter (Some 2) (typed 2 (js ''   '') (attached [js ''a'']))
       = Inr (typed 2 (js ''   '') (attached [js ''a'']))
   \<and> trim (stripNewlines []) = []
   \<and> handleNewFilter (Some 2) (typed 2 [] (attached [js ''a'']))
       = Inr (typed 2 [] (attached [js ''a'']))"
    by simp
  with tb lb show ?thesis by (simp only: conj_assoc simp_thms)
qed

section \<open>Claim C4: removing a filter\<close>

lemma removeFilter_attached:
  fixes s :: state and r c :: ref and index :: int
  assumes "searchInput s = Some r" and "0 < inputListeners s r" and "filtersContainer s = Some c"
  defines "rest \<equiv> splice1 index (filters s)"
  defines "written \<equiv> stripNewlines (join delimiter rest)"
  defines "s1 \<equiv> s\<lparr>inputValue := (inputValue s)(r := written)\<rparr>"
  shows "removeFilter index s =
          Inr (if newFilters written = rest
               then s1\<lparr>filters := rest, savedData := rest # savedData s,
                       pills := (pills s)(c := pillsFor rest)\<rparr>
               else s1\<lparr>filters := newFilters written,
                       savedData := newFilters written # rest # savedData s,
                       pills := (pills s)(c := pillsFor (newFilters written))\<rparr>)"
proof -
  define sA where "sA = s\<lparr>filters := rest, savedData := rest # savedData s\<rparr>"
  have fields: "searchInput sA = Some r" "0 < inputListeners sA r" "filtersContainer sA = Some c"
    using assms(1-3) by (simp_all add: sA_def)
  have h: "removeFilter index s = renderPills (updateSearchQuery sA)"
    by (simp add: removeFilter_def saveSettings_def sA_def rest_def)
  show ?thesis
    unfolding h updateSearchQuery_attached [OF fields]
    using assms(3) by (simp add: renderPills_def sA_def s1_def written_def)
qed

lemma splice1_in_range:
  "0 \<le> index \<Longrightarrow> index < int (length xs) \<Longrightarrow>
     splice1 index xs = take (nat index) xs @ drop (Suc (nat index)) xs"
  by (simp add: splice1_def Let_def min_def)

lemma userInput_attached:
  "userInput 0 v (attached []) =
     (if newFilters (stripNewlines v) = [] then typed 0 v (attached [])
      else (typed 0 v (attached []))
             \<lparr>filters := newFilters (stripNewlines v),
              savedData := [newFilters (stripNewlines v)],
              pills := (pills (attached []))(1 := pillsFor (newFilters (stripNewlines v)))\<rparr>)"
proof -
  have a: "searchInput (attached []) = Some 0" "0 < inputListeners (attached []) 0"
    "filtersContainer (attached []) = Some 1" "filters (attached []) = []"
    "savedData (attached []) = []"
    by (simp_all add: attached_def)
  show ?thesis
    unfolding userInput_reconciles [OF a(2)] reconcile_typed [OF a(1)] a(3-5)
    by (simp add: stateOf_def eq_commute [of "[]"])
qed

text \<open>
  As stated, for every filter list, the claim fails.  The user types
  \<open>x   AND<TAB>   AND   y   AND   z\<close> into the native search box of an attached plugin: the
  filter list becomes \<open>x   AND\<close>, \<open>y\<close>, \<open>z\<close>.  Removing the entry at index 2 writes
  \<open>x   AND   AND   y\<close> into the box, and the reconciliation that follows leaves \<open>x\<close>,
  \<open>AND   y\<close> instead of \<open>x   AND\<close>, \<open>y\<close>.
\<close>

theorem C4_counterexample:
  "filters (userInput 0 (js ''x   AND'' @ 0x09 # js ''   AND   y   AND   z'') (attached []))
       = [js ''x   AND'', js ''y'', js ''z'']
   \<and> filters (stateOf (removeFilter 2
         (userInput 0 (js ''x   AND'' @ 0x09 # js ''   AND   y   AND   z'') (attached []))))
       = [js ''x'', js ''AND   y'']
   \<and> filters (stateOf (removeFilter 2
         (userInput 0 (js ''x   AND'' @ 0x09 # js ''   AND   y   AND   z'') (attached []))))
       \<noteq> [js ''x   AND'', js ''y'']"
proof -
  let ?v = "js ''x   AND'' @ 0x09 # js ''   AND   y   AND   z''"
  let ?s = "userInput 0 ?v (attached [])"
  have n: "newFilters (stripNewlines ?v) = [js ''x   AND'', js ''y'', js ''z'']"
    by (simp add: newFilters_def split_def delimiter_def js_def trim_def isWhiteSpace_def
        stripNewlines_def)
  have s: "?s = (typed 0 ?v (attached []))\<lparr>filters := [js ''x   AND'', js ''y'', js ''z''],
             savedData := [[js ''x   AND'', js ''y'', js ''z'']],
             pills := (pills (attached []))(1 := pillsFor [js ''x   AND'', js ''y'', js ''z''])\<rparr>"
    unfolding userInput_attached n by simp
  have a: "searchInput ?s = Some 0" "0 < inputListeners ?s 0" "filtersContainer ?s = Some 1"
    and f: "filters ?s = [js ''x   AND'', js ''y'', js ''z'']"
    unfolding s by (simp_all add: attached_def typed_def)
  have sp: "splice1 2 [js ''x   AND'', js ''y'', js ''z''] = [js ''x   AND'', js ''y'']"
    by (simp add: splice1_def)
  have m: "newFilters (stripNewlines (join delimiter [js ''x   AND'', js ''y'']))
      = [js ''x'', js ''AND   y'']"
    by (simp add: newFilters_def split_def delimiter_def js_def trim_def isWhiteSpace_def
        stripNewlines_def)
  have d: "[js ''x'', js ''AND   y''] \<noteq> [js ''x   AND'', js ''y'']" by (simp add: js_def)
  have "filters (stateOf (removeFilter 2 ?s)) = [js ''x'', js ''AND   y'']"
    unfolding removeFilter_attached [OF a] f sp m using d by (simp add: stateOf_def)
  with f d show ?thesis by simp
qed

text \<open>
  Claim C4, amended.  On a plugin that holds the native input (with its listener) and a
  pills container, for every filter list and every index: \<open>removeAt\<close> deletes what
  \<open>splice(index, 1)\<close> deletes, which for an index within the list is the entry at that
  index; the remaining list is saved and its join with the separator is written into the
  native input, which holds it less its line breaks.  The \<open>input\<close> event dispatched on
  the native input then reconciles the filter list from that text: the filter list ends
  as what the text splits into, and where that differs from the remaining list it is
  saved once more.  It is the remaining list, saved once, whenever all its entries are
  non-empty, trimmed, free of the separator and of line breaks, and none but the last
  ends in three blanks and \<open>AND\<close>; so removing index 1 from \<open>a\<close>, \<open>b\<close>, \<open>c\<close> gives
  \<open>a\<close>, \<open>c\<close> with the derived text \<open>a   AND   c\<close>.
\<close>

theorem C4_remove:
  fixes s :: state and r c :: ref and index :: int
  assumes "searchInput s = Some r" and "0 < inputListeners s r" and "filtersContainer s = Some c"
  defines "rest \<equiv> splice1 index (filters s)"
  defines "written \<equiv> stripNewlines (join delimiter rest)"
  defines "s1 \<equiv> s\<lparr>inputValue := (inputValue s)(r := written)\<rparr>"
  shows "removeFilter index s =
          Inr (if newFilters written = rest
               then s1\<lparr>filters := rest, savedData := rest # savedData s,
                       pills := (pills s)(c := pillsFor rest)\<rparr>
               else s1\<lparr>filters := newFilters written,
                       savedData := newFilters written # rest # savedData s,
                       pills := (pills s)(c := pillsFor (newFilters written))\<rparr>)
    \<and> (0 \<le> index \<and> index < int (length (filters s)) \<longrightarrow>
          rest = take (nat index) (filters s) @ drop (Suc (nat index)) (filters s))
    \<and> ((\<forall>l \<in> set rest. filterTerm l \<and> \<not> sublist delimiter l \<and> stripNewlines l = l)
          \<and> (\<forall>l \<in> set (butlast rest). \<not> suffix (js ''   AND'') l) \<longrightarrow>
          written = join delimiter rest
          \<and> filters (stateOf (removeFilter index s)) = rest
          \<and> savedData (stateOf (removeFilter index s)) = rest # savedData s)
    \<and> (filters s = [js ''a'', js ''b'', js ''c''] \<and> index = 1 \<longrightarrow>
          filters (stateOf (removeFilter index s)) = [js ''a'', js ''c'']
          \<and> inputValue (stateOf (removeFilter index s)) r = js ''a   AND   c''
          \<and> savedData (stateOf (removeFilter index s)) = [js ''a'', js ''c''] # savedData s
          \<and> pills (stateOf (removeFilter index s)) c
              = [\<lparr>dataIndex = 0, pillValue = js ''a''\<rparr>, \<lparr>dataIndex = 1, pillValue = js ''c''\<rparr>])"
proof -
  note main = removeFilter_attached [OF assms(1-3), of index, folded rest_def,
      folded written_def, folded s1_def]
  have rng: "0 \<le> index \<and> index < int (length (filters s)) \<longrightarrow>
          rest = take (nat index) (filters s) @ drop (Suc (nat index)) (filters s)"
    by (simp add: rest_def splice1_in_range)
  have rt: "(\<forall>l \<in> set rest. filterTerm l \<and> \<not> sublist delimiter l \<and> stripNewlines l = l)
          \<and> (\<forall>l \<in> set (butlast rest). \<not> suffix (js ''   AND'') l) \<longrightarrow>
          written = join delimiter rest
          \<and> filters (stateOf (removeFilter index s)) = rest
          \<and> savedData (stateOf (removeFilter index s)) = rest # savedData s"
  proof (intro impI, elim conjE)
    assume 1: "\<forall>l \<in> set rest. filterTerm l \<and> \<not> sublist delimiter l \<and> stripNewlines l = l"
      and 2: "\<forall>l \<in> set (butlast rest). \<not> suffix (js ''   AND'') l"
    have w: "written = join delimiter rest"
      unfolding written_def using 1 by (intro stripNewlines_join) simp
    from 1 2 have "newFilters (join delimiter rest) = rest"
      by (intro newFilters_join) simp_all
    with w have "newFilters written = rest" by simp
    with w show "written = join delimiter rest
          \<and> filters (stateOf (removeFilter index s)) = rest
          \<and> savedData (stateOf (removeFilter index s)) = rest # savedData s"
      unfolding main by (simp add: stateOf_def s1_def)
  qed
  have ac: "newFilters (stripNewlines (join delimiter [js ''a'', js ''c'']))
      = [js ''a'', js ''c'']"
    "stripNewlines (join delimiter [js ''a'', js ''c'']) = js ''a   AND   c''"
    "newFilters (js ''a   AND   c'') = [js ''a'', js ''c'']"
    by (simp_all add: newFilters_def split_def delimiter_def js_def trim_def isWhiteSpace_def
        stripNewlines_def)
  have p: "pillsFor [js ''a'', js ''c'']
      = [\<lparr>dataIndex = 0, pillValue = js ''a''\<rparr>, \<lparr>dataIndex = 1, pillValue = js ''c''\<rparr>]"
    by (simp add: pillsFor_def stripNewlines_def js_def)
  have ex: "filters s = [js ''a'', js ''b'', js ''c''] \<and> index = 1 \<longrightarrow>
          filters (stateOf (removeFilter index s)) = [js ''a'', js ''c'']
          \<and> inputValue (stateOf (removeFilter index s)) r = js ''a   AND   c''
          \<and> savedData (stateOf (removeFilter index s)) = [js ''a'', js ''c''] # savedData s
          \<and> pills (stateOf (removeFilter index s)) c
              = [\<lparr>dataIndex = 0, pillValue = js ''a''\<rparr>, \<lparr>dataIndex = 1, pillValue = js ''c''\<rparr>]"
  proof (intro impI, elim conjE)
    assume f: "filters s = [js ''a'', js ''b'', js ''c'']" and i: "index = 1"
    have q: "rest = [js ''a'', js ''c'']" by (simp add: rest_def f i splice1_def)
    have w: "written = js ''a   AND   c''" "newFilters written = [js ''a'', js ''c'']"
      unfolding written_def q by (rule ac(2), rule ac(1))
    show "filters (stateOf (removeFilter index s)) = [js ''a'', js ''c'']
          \<and> inputValue (stateOf (removeFilter index s)) r = js ''a   AND   c''
          \<and> savedData (stateOf (removeFilter index s)) = [js ''a'', js ''c''] # savedData s
          \<and> pills (stateOf (removeFilter index s)) c
              = [\<lparr>dataIndex = 0, pillValue = js ''a''\<rparr>, \<lparr>dataIndex = 1, pillValue = js ''c''\<rparr>]"
      unfolding main s1_def w(1) q p by (simp add: stateOf_def ac(3))
  qed
  from main rng rt ex show ?thesis by blast
qed

theorem C4_remove_witness:
  "searchInput (attached [js ''a'', js ''b'', js ''c'']) = Some 0
   \<and> 0 < inputListeners (attached [js ''a'', js ''b'', js ''c'']) 0
   \<and> filtersContainer (attached [js ''a'', js ''b'', js ''c'']) = Some 1
   \<and> filters (attached [js ''a'', js ''b'', js ''c'']) = [js ''a'', js ''b'', js ''c'']
   \<and> savedData (attached [js ''a'', js ''b'', js ''c'']) = []
   \<and> filters (stateOf (removeFilter 1 (attached [js ''a'', js ''b'', js ''c''])))
       = [js ''a'', js ''c'']
   \<and> inputValue (stateOf (removeFilter 1 (attached [js ''a'', js ''b'', js ''c'']))) 0
       = js ''a   AND   c''
   \<and> savedData (stateOf (removeFilter 1 (attached [js ''a'', js ''b'', js ''c''])))
       = [[js ''a'', js ''c'']]
   \<and> pills (stateOf (removeFilter 1 (attached [js ''a'', js ''b'', js ''c'']))) 1
       = [\<lparr>dataIndex = 0, pillValue = js ''a''\<rparr>, \<lparr>dataIndex = 1, pillValue = js ''c''\<rparr>]
   \<and> removeFilter 1 ((attached [])\<lparr>filters := [js ''a'' @ 0x0A # js ''b'', js ''c'']\<rparr>) =
       Inr ((attached [])
              \<lparr>inputValue := (inputValue (attached []))(0 := js ''ab''),
               filters := [js ''ab''],
               savedData := [[js ''ab''], [js ''a'' @ 0x0A # js ''b'']],
               pills := (pills (attached []))(1 := [\<lparr>dataIndex = 0, pillValue = js ''ab''\<rparr>])\<rparr>)
   \<and> filters (stateOf (removeFilter 0 ((attached [])\<lparr>filters := [js ''a'', js '' b '']\<rparr>)))
       = [js ''b'']"
proof -
  let ?m = "(attached [])\<lparr>filters := [js ''a'', js '' b '']\<rparr>"
  have am: "searchInput ?m = Some 0" "0 < inputListeners ?m 0" "filtersContainer ?m = Some 1"
    and fm: "filters ?m = [js ''a'', js '' b '']"
    by (simp_all add: attached_def)
  have wm: "splice1 0 [js ''a'', js '' b ''] = [js '' b '']"
    "newFilters (stripNewlines (js '' b '')) = [js ''b'']"
    "js ''b'' \<noteq> js '' b ''"
    by (simp_all add: newFilters_def split_def delimiter_def js_def trim_def isWhiteSpace_def
        stripNewlines_def splice1_def)
  from C4_remove [OF am, of 0]
  have tr: "filters (stateOf (removeFilter 0 ?m)) = [js ''b'']"
    unfolding fm wm(1) by (simp add: wm stateOf_def)
  let ?n = "(attached [])\<lparr>filters := [js ''a'' @ 0x0A # js ''b'', js ''c'']\<rparr>"
  have an: "searchInput ?n = Some 0" "0 < inputListeners ?n 0" "filtersContainer ?n = Some 1"
    and fn: "filters ?n = [js ''a'' @ 0x0A # js ''b'', js ''c'']" "savedData ?n = []"
    by (simp_all add: attached_def)
  have sp: "splice1 1 [js ''a'' @ 0x0A # js ''b'', js ''c''] = [js ''a'' @ 0x0A # js ''b'']"
    by (simp add: splice1_def)
  have wn: "stripNewlines (js ''a'' @ 0x0A # js ''b'') = js ''ab''"
    "newFilters (js ''ab'') = [js ''ab'']"
    "js ''ab'' \<noteq> js ''a'' @ 0x0A # js ''b''"
    "pillsFor [js ''ab''] = [\<lparr>dataIndex = 0, pillValue = js ''ab''\<rparr>]"
    by (simp_all add: newFilters_def split_def delimiter_def js_def trim_def isWhiteSpace_def
        stripNewlines_def pillsFor_def)
  from C4_remove [OF an, of 1]
  have lb: "removeFilter 1 ?n =
       Inr ((attached [])
              \<lparr>inputValue := (inputValue (attached []))(0 := js ''ab''),
               filters := [js ''ab''],
               savedData := [[js ''ab''], [js ''a'' @ 0x0A # js ''b'']],
               pills := (pills (attached []))(1 := [\<lparr>dataIndex = 0, pillValue = js ''ab''\<rparr>])\<rparr>)"
    unfolding fn sp by (simp add: wn)
  have a: "searchInput (attached [js ''a'', js ''b'', js ''c'']) = Some 0"
    "0 < inputListeners (attached [js ''a'', js ''b'', js ''c'']) 0"
    "filtersContainer (attached [js ''a'', js ''b'', js ''c'']) = Some 1"
    by (simp_all add: attached_def)
  have f: "filters (attached [js ''a'', js ''b'', js ''c'']) = [js ''a'', js ''b'', js ''c'']"
    "savedData (attached [js ''a'', js ''b'', js ''c'']) = []"
    by (simp_all add: attached_def)
  from C4_remove [OF a, of 1] f(1)
  have "filters (stateOf (removeFilter 1 (attached [js ''a'', js ''b'', js ''c''])))
       = [js ''a'', js ''c'']
   \<and> inputValue (stateOf (removeFilter 1 (attached [js ''a'', js ''b'', js ''c'']))) 0
       = js ''a   AND   c''
   \<and> savedData (stateOf (removeFilter 1 (attached [js ''a'', js ''b'', js ''c''])))
       = [js ''a'', js ''c''] # savedData (attached [js ''a'', js ''b'', js ''c''])
   \<and> pills (stateOf (removeFilter 1 (attached [js ''a'', js ''b'', js ''c'']))) 1
       = [\<lparr>dataIndex = 0, pillValue = js ''a''\<rparr>, \<lparr>dataIndex = 1, pillValue = js ''c''\<rparr>]"
    by blast
  with a f lb tr show ?thesis by simp
qed

section \<open>Edits let through by the debouncer\<close>

lemma debouncedUpdate_attached:
  fixes s :: state and r c :: ref and index :: int and v :: jsstring
  assumes "0 \<le> index" and "index < int (length (filters s))"
    and "searchInput s = Some r" and "0 < inputListeners s r" and "filtersContainer s = Some c"
  defines "stored \<equiv> (filters s)[nat index := trim v]"
  defines "written \<equiv> stripNewlines (join delimiter stored)"
  defines "s1 \<equiv> s\<lparr>inputValue := (inputValue s)(r := written)\<rparr>"
  shows "debouncedUpdate index v s =
          (if newFilters written = stored
           then s1\<lparr>filters := stored, savedData := stored # savedData s\<rparr>
           else s1\<lparr>filters := newFilters written,
                   savedData := newFilters written # stored # savedData s,
                   pills := (pills s)(c := pillsFor (newFilters written))\<rparr>)"
proof -
  define sA where "sA = s\<lparr>filters := stored, savedData := stored # savedData s\<rparr>"
  have fields: "searchInput sA = Some r" "0 < inputListeners sA r" "filtersContainer sA = Some c"
    using assms(3-5) by (simp_all add: sA_def)
  have h: "debouncedUpdate index v s = updateSearchQuery sA"
    using assms(1,2) by (simp add: debouncedUpdate_def saveSettings_def sA_def stored_def)
  show ?thesis
    unfolding h updateSearchQuery_attached [OF fields]
    by (simp add: sA_def s1_def written_def)
qed

lemma debouncedUpdate_detached:
  assumes "0 \<le> index" and "index < int (length (filters s))" and "searchInput s = None"
  shows "debouncedUpdate index v s =
     s\<lparr>filters := (filters s)[nat index := trim v],
       savedData := (filters s)[nat index := trim v] # savedData s\<rparr>"
  using assms by (simp add: debouncedUpdate_def saveSettings_def updateSearchQuery_def)

text \<open>
  Claim C9.  When a debounced edit fires with an index that is no longer within bounds
  (negative, or at least the length of the filter list, as after the entry was removed
  while the edit was pending), nothing changes: the filter list, what has been saved and
  the text of the native input are as before.
\<close>

theorem C9_stale_edit_ignored:
  assumes "index < 0 \<or> int (length (filters s)) \<le> index"
  shows "debouncedUpdate index v s = s
    \<and> filters (debouncedUpdate index v s) = filters s
    \<and> savedData (debouncedUpdate index v s) = savedData s
    \<and> inputValue (debouncedUpdate index v s) = inputValue s"
  using assms by (auto simp: debouncedUpdate_def)

theorem C9_stale_edit_ignored_witness:
  "int (length (filters (attached [js ''a'']))) \<le> 1
   \<and> debouncedUpdate 1 (js ''b'') (attached [js ''a'']) = attached [js ''a'']"
proof -
  have h: "int (length (filters (attached [js ''a'']))) \<le> 1" by (simp add: attached_def)
  from C9_stale_edit_ignored [of 1 "attached [js ''a'']" "js ''b''"] h show ?thesis by simp
qed

subsection \<open>Claim C10: an edit that trims to nothing\<close>

text \<open>
  An edit whose text trims to nothing does not, as claimed, always leave an empty entry
  behind.  On an attached plugin with the filters \<open>a\<close>, \<open>b\<close> the edit of index 0 to two
  blanks stores and saves the list with the empty entry, writes \<open>   AND   b\<close> into the
  native input, and the reconciliation that follows drops the empty entry: the filter
  list ends as \<open>b\<close>.
\<close>

theorem C10_counterexample:
  "trim (js ''  '') = []
   \<and> filters (debouncedUpdate 0 (js ''  '') (attached [js ''a'', js ''b''])) = [js ''b'']
   \<and> filters (debouncedUpdate 0 (js ''  '') (attached [js ''a'', js ''b'']))
       \<noteq> (filters (attached [js ''a'', js ''b'']))[0 := []]
   \<and> savedData (debouncedUpdate 0 (js ''  '') (attached [js ''a'', js ''b'']))
       = [[js ''b''], [[], js ''b'']]"
proof -
  let ?s = "attached [js ''a'', js ''b'']"
  have t: "trim (js ''  '') = []" by (simp add: js_def trim_def isWhiteSpace_def)
  have a: "(0::int) \<le> 0" "0 < int (length (filters ?s))" "searchInput ?s = Some 0"
    "0 < inputListeners ?s 0" "filtersContainer ?s = Some 1"
    and f: "filters ?s = [js ''a'', js ''b'']" "savedData ?s = []"
    by (simp_all add: attached_def)
  have n: "newFilters (stripNewlines (delimiter @ js ''b'')) = [js ''b'']"
    by (simp add: newFilters_def split_def delimiter_def js_def trim_def isWhiteSpace_def
        stripNewlines_def)
  show ?thesis
    unfolding debouncedUpdate_attached [OF a] f t by (simp add: n)
qed

text \<open>
  Claim C10, amended.  For every index within the filter list, an edit whose text trims
  to the empty string stores the empty string at that index and saves that list: the
  edit is not rejected.  On a plugin that holds no native input the entry stays, so the
  edit, unlike append and reconciliation, does not keep every entry non-empty.  On a
  plugin that holds the native input (with its listener) and a pills container, the
  query text it writes, which the input holds less its line breaks, is reconciled at
  once: the filter list ends as what that text splits into, which has no empty entry, is
  saved once more and the pills are rendered from it.
\<close>

theorem C10_empty_edit:
  fixes s :: state and r c :: ref and index :: int and v :: jsstring
  assumes "0 \<le> index" and "index < int (length (filters s))" and "trim v = []"
  defines "stored \<equiv> (filters s)[nat index := []]"
  defines "written \<equiv> stripNewlines (join delimiter stored)"
  shows "stored ! nat index = [] \<and> length stored = length (filters s)
    \<and> (searchInput s = None \<longrightarrow>
          debouncedUpdate index v s = s\<lparr>filters := stored, savedData := stored # savedData s\<rparr>)
    \<and> (searchInput s = Some r \<and> 0 < inputListeners s r \<and> filtersContainer s = Some c \<longrightarrow>
          debouncedUpdate index v s =
            s\<lparr>inputValue := (inputValue s)(r := written),
              filters := newFilters written,
              savedData := newFilters written # stored # savedData s,
              pills := (pills s)(c := pillsFor (newFilters written))\<rparr>
          \<and> [] \<notin> set (filters (debouncedUpdate index v s)))"
proof -
  have i: "nat index < length (filters s)" using assms(1,2) by simp
  then have st: "stored ! nat index = []" "length stored = length (filters s)"
    by (simp_all add: stored_def)
  have mem: "[] \<in> set stored" using st i by (metis nth_mem)
  then have diff: "newFilters written \<noteq> stored"
    using newFilters_nonempty [of written] by auto
  have det: "searchInput s = None \<longrightarrow>
      debouncedUpdate index v s = s\<lparr>filters := stored, savedData := stored # savedData s\<rparr>"
    using debouncedUpdate_detached [OF assms(1,2), of v] assms(3) by (simp add: stored_def)
  have att: "searchInput s = Some r \<and> 0 < inputListeners s r \<and> filtersContainer s = Some c \<longrightarrow>
          debouncedUpdate index v s =
            s\<lparr>inputValue := (inputValue s)(r := written),
              filters := newFilters written,
              savedData := newFilters written # stored # savedData s,
              pills := (pills s)(c := pillsFor (newFilters written))\<rparr>
          \<and> [] \<notin> set (filters (debouncedUpdate index v s))"
  proof (intro impI, elim conjE)
    assume a: "searchInput s = Some r" "0 < inputListeners s r" "filtersContainer s = Some c"
    have e: "debouncedUpdate index v s =
            s\<lparr>inputValue := (inputValue s)(r := written),
              filters := newFilters written,
              savedData := newFilters written # stored # savedData s,
              pills := (pills s)(c := pillsFor (newFilters written))\<rparr>"
      using debouncedUpdate_attached [OF assms(1,2) a, of v] assms(3) diff
      by (simp add: stored_def written_def)
    then show "debouncedUpdate index v s =
            s\<lparr>inputValue := (inputValue s)(r := written),
              filters := newFilters written,
              savedData := newFilters written # stored # savedData s,
              pills := (pills s)(c := pillsFor (newFilters written))\<rparr>
          \<and> [] \<notin> set (filters (debouncedUpdate index v s))"
      by (simp add: newFilters_nonempty)
  qed
  from st det att show ?thesis by blast
qed

theorem C10_empty_edit_witness:
  "trim (js ''  '') = []
   \<and> debouncedUpdate 0 (js ''  '') (loaded [js ''a'', js ''b'']) =
       (loaded [js ''a'', js ''b''])\<lparr>filters := [[], js ''b''], savedData := [[[], js ''b'']]\<rparr>
   \<and> debouncedUpdate 0 (js ''  '') (attached [js ''a'', js ''b'']) =
       (attached [js ''a'', js ''b''])
         \<lparr>inputValue := (inputValue (attached [js ''a'', js ''b'']))(0 := js ''   AND   b''),
          filters := [js ''b''], savedData := [[js ''b''], [[], js ''b'']],
          pills := (pills (attached [js ''a'', js ''b'']))
            (1 := [\<lparr>dataIndex = 0, pillValue = js ''b''\<rparr>])\<rparr>
   \<and> debouncedUpdate 1 (js ''  '')
         ((attached [])\<lparr>filters := [js ''a'' @ 0x0A # js ''b'', js ''c'']\<rparr>) =
       (attached [])
         \<lparr>inputValue := (inputValue (attached []))(0 := js ''ab   AND   ''),
          filters := [js ''ab''],
          savedData := [[js ''ab''], [js ''a'' @ 0x0A # js ''b'', []]],
          pills := (pills (attached []))(1 := [\<lparr>dataIndex = 0, pillValue = js ''ab''\<rparr>])\<rparr>"
proof -
  let ?n = "(attached [])\<lparr>filters := [js ''a'' @ 0x0A # js ''b'', js ''c'']\<rparr>"
  have an: "(0::int) \<le> 1" "1 < int (length (filters ?n))"
    and bn: "searchInput ?n = Some 0 \<and> 0 < inputListeners ?n 0 \<and> filtersContainer ?n = Some 1"
    and fn: "filters ?n = [js ''a'' @ 0x0A # js ''b'', js ''c'']" "savedData ?n = []"
    by (simp_all add: attached_def)
  have wn: "stripNewlines (js ''a'' @ 0x0A # js ''b'' @ delimiter) = js ''ab   AND   ''"
    "newFilters (js ''ab   AND   '') = [js ''ab'']"
    "pillsFor [js ''ab''] = [\<lparr>dataIndex = 0, pillValue = js ''ab''\<rparr>]"
    by (simp_all add: newFilters_def split_def delimiter_def js_def trim_def isWhiteSpace_def
        stripNewlines_def pillsFor_def)
  let ?s = "attached [js ''a'', js ''b'']" and ?l = "loaded [js ''a'', js ''b'']"
  have t: "trim (js ''  '') = []" by (simp add: js_def trim_def isWhiteSpace_def)
  have a: "(0::int) \<le> 0" "0 < int (length (filters ?s))"
    and b: "searchInput ?s = Some 0 \<and> 0 < inputListeners ?s 0 \<and> filtersContainer ?s = Some 1"
    and f: "filters ?s = [js ''a'', js ''b'']" "savedData ?s = []"
    by (simp_all add: attached_def)
  have l: "0 < int (length (filters ?l))" "searchInput ?l = None"
    and fl: "filters ?l = [js ''a'', js ''b'']" "savedData ?l = []"
    by (simp_all add: loaded_def)
  have j: "stripNewlines (delimiter @ js ''b'') = js ''   AND   b''"
    by (simp add: delimiter_def js_def stripNewlines_def)
  have n: "newFilters (js ''   AND   b'') = [js ''b'']"
    by (simp add: newFilters_def split_def delimiter_def js_def trim_def isWhiteSpace_def)
  have p: "pillsFor [js ''b''] = [\<lparr>dataIndex = 0, pillValue = js ''b''\<rparr>]"
    by (simp add: pillsFor_def stripNewlines_def js_def)
  have 1: "debouncedUpdate 0 (js ''  '') ?l = ?l\<lparr>filters := [[], js ''b''], savedData := [[[], js ''b'']]\<rparr>"
    using C10_empty_edit [OF a(1) l(1) t, of 0 0] l(2) unfolding fl by simp
  have 2: "debouncedUpdate 0 (js ''  '') ?s =
       ?s\<lparr>inputValue := (inputValue ?s)(0 := js ''   AND   b''),
          filters := [js ''b''], savedData := [[js ''b''], [[], js ''b'']],
          pills := (pills ?s)(1 := [\<lparr>dataIndex = 0, pillValue = js ''b''\<rparr>])\<rparr>"
    using C10_empty_edit [OF a t, of 0 1] b unfolding f by (simp add: j n p)
  have 3: "debouncedUpdate 1 (js ''  '') ?n =
       (attached [])
         \<lparr>inputValue := (inputValue (attached []))(0 := js ''ab   AND   ''),
          filters := [js ''ab''],
          savedData := [[js ''ab''], [js ''a'' @ 0x0A # js ''b'', []]],
          pills := (pills (attached []))(1 := [\<lparr>dataIndex = 0, pillValue = js ''ab''\<rparr>])\<rparr>"
    using C10_empty_edit [OF an t, of 0 1] bn unfolding fn by (simp add: wn)
  from t 1 2 3 show ?thesis by blast
qed

subsection \<open>Claim C7: the debounced edit\<close>


text \<open>An edit that comes when the window has run out fires at once again.\<close>

lemma editAt_next_window:
  assumes "t0 + 300 \<le> t1"
  shows "editAt trailing None None [(t0, i0, v0), (t1, i1, v1)] s =
     debouncedUpdate i1 v1 (debouncedUpdate i0 v0 s)"
  using assms by (simp add: windowEnds_def)




section \<open>What the setup inserts\<close>

text \<open>What the steps of the setup leave alone.\<close>

lemma renderPills_frame:
  "inserted (stateOf (renderPills s)) = inserted s"
  "controls (stateOf (renderPills s)) = controls s"
  "existingSecondaryInput (stateOf (renderPills s)) = existingSecondaryInput s"
  "filtersContainer (stateOf (renderPills s)) = filtersContainer s"
  by (simp_all add: renderPills_def stateOf_def split: option.split)

lemma initializeMainInput_frame:
  "inserted (initializeMainInput s) = inserted s"
  "controls (initializeMainInput s) = controls s"
  "existingSecondaryInput (initializeMainInput s) = existingSecondaryInput s"
  "filtersContainer (initializeMainInput s) = filtersContainer s"
  by (simp_all add: initializeMainInput_def split: option.split)

lemma registerSearchHandlers_frame:
  "inserted (registerSearchHandlers s) = inserted s"
  "controls (registerSearchHandlers s) = controls s"
  "existingSecondaryInput (registerSearchHandlers s) = existingSecondaryInput s"
  "filtersContainer (registerSearchHandlers s) = filtersContainer s"
  by (simp_all add: registerSearchHandlers_def registerInputHandler_def split: option.split)

lemma createSecondaryInput_frame:
  "controls (createSecondaryInput s) = controls s"
  "filtersContainer (createSecondaryInput s) = filtersContainer s"
  "inserted (createSecondaryInput s) =
     (if controls s \<and> \<not> existingSecondaryInput s
      then SearchInputContainer (nextRef s) # inserted s else inserted s)"
  "existingSecondaryInput (createSecondaryInput s) = (controls s \<or> existingSecondaryInput s)"
  by (auto simp: createSecondaryInput_def)

lemma createPillsContainer_frame:
  "controls (createPillsContainer s) = controls s"
  "existingSecondaryInput (createPillsContainer s) = existingSecondaryInput s"
  "inserted (createPillsContainer s) =
     (if controls s \<and> (\<forall>c. filtersContainer s = Some c \<longrightarrow> \<not> isConnected s c)
      then PillsContainer (nextRef s) # inserted s else inserted s)"
  by (auto simp: createPillsContainer_def split: option.splits)

lemma createPillsContainer_connected:
  "controls s \<Longrightarrow>
     \<exists>c. filtersContainer (createPillsContainer s) = Some c
       \<and> PillsContainer c \<in> set (inserted (createPillsContainer s))"
  by (auto simp: createPillsContainer_def isConnected_def split: option.splits)

lemma adopt_frame:
  "inserted (case x of None \<Rightarrow> s | Some r \<Rightarrow>
      if b r then saveSettings (s\<lparr>filters := f r\<rparr>) else s) = inserted s"
  "controls (case x of None \<Rightarrow> s | Some r \<Rightarrow>
      if b r then saveSettings (s\<lparr>filters := f r\<rparr>) else s) = controls s"
  "existingSecondaryInput (case x of None \<Rightarrow> s | Some r \<Rightarrow>
      if b r then saveSettings (s\<lparr>filters := f r\<rparr>) else s) = existingSecondaryInput s"
  "filtersContainer (case x of None \<Rightarrow> s | Some r \<Rightarrow>
      if b r then saveSettings (s\<lparr>filters := f r\<rparr>) else s) = filtersContainer s"
  by (simp_all add: saveSettings_def split: option.split)

lemma setup_frame:
  "inserted (stateOf (initializeComponents s)) = inserted (createSecondaryInput (createPillsContainer s))"
  "controls (stateOf (initializeComponents s)) = controls s"
  "existingSecondaryInput (stateOf (initializeComponents s))
     = existingSecondaryInput (createSecondaryInput (createPillsContainer s))"
  "filtersContainer (stateOf (initializeComponents s)) = filtersContainer (createPillsContainer s)"
  unfolding initializeComponents_def Let_def renderPills_frame adopt_frame
    initializeMainInput_frame registerSearchHandlers_frame createSecondaryInput_frame(1,2)
  by (simp_all add: createPillsContainer_frame(1))

lemma setup_second_run:
  "inserted (stateOf (initializeComponents (stateOf (initializeComponents s))))
     = inserted (stateOf (initializeComponents s))"
proof (cases "controls s")
  case False
  then show ?thesis
    by (simp add: setup_frame createSecondaryInput_frame createPillsContainer_frame)
next
  case True
  let ?s1 = "stateOf (initializeComponents s)"
  from createPillsContainer_connected [OF True] obtain c
    where c: "filtersContainer (createPillsContainer s) = Some c"
      "PillsContainer c \<in> set (inserted (createPillsContainer s))" by blast
  have 1: "filtersContainer ?s1 = Some c" by (simp add: setup_frame c)
  have 2: "isConnected ?s1 c"
    using c(2) by (simp add: isConnected_def setup_frame createSecondaryInput_frame)
  have 3: "existingSecondaryInput ?s1"
    using True by (simp add: setup_frame createSecondaryInput_frame createPillsContainer_frame)
  have p: "inserted (createPillsContainer ?s1) = inserted ?s1"
    using 1 2 by (simp add: createPillsContainer_frame)
  have "inserted (createSecondaryInput (createPillsContainer ?s1)) = inserted ?s1"
    using 3 p by (simp add: createSecondaryInput_frame createPillsContainer_frame)
  then show ?thesis by (simp add: setup_frame(1) [of ?s1])
qed

lemma setup_adds_one:
  "length (pillsContainers (inserted (stateOf (initializeComponents s))))
     \<le> Suc (length (pillsContainers (inserted s)))"
  "length (secondaryInputs (inserted (stateOf (initializeComponents s))))
     \<le> Suc (length (secondaryInputs (inserted s)))"
  by (simp_all add: setup_frame createSecondaryInput_frame createPillsContainer_frame)

section \<open>The wiring that the operations rely on\<close>

text \<open>
  The setup establishes \<open>wired\<close> and every operation keeps it: whenever the plugin holds
  a search input, that element carries the \<open>input\<close> listener, and whenever a secondary
  input exists, so does a pills container.
\<close>

lemma handleSearchInputChange_frame:
  "searchInput (stateOf (handleSearchInputChange s)) = searchInput s"
  "inputListeners (stateOf (handleSearchInputChange s)) = inputListeners s"
  "secondaryInput (stateOf (handleSearchInputChange s)) = secondaryInput s"
  "filtersContainer (stateOf (handleSearchInputChange s)) = filtersContainer s"
  by (simp_all add: handleSearchInputChange_def renderPills_def saveSettings_def stateOf_def
      split: option.split)

lemma dispatchInput_frame:
  "searchInput (dispatchInput n s) = searchInput s"
  "inputListeners (dispatchInput n s) = inputListeners s"
  "secondaryInput (dispatchInput n s) = secondaryInput s"
  "filtersContainer (dispatchInput n s) = filtersContainer s"
  by (induction n arbitrary: s) (simp_all add: handleSearchInputChange_frame)

lemma updateSearchQuery_frame:
  "searchInput (updateSearchQuery s) = searchInput s"
  "inputListeners (updateSearchQuery s) = inputListeners s"
  "secondaryInput (updateSearchQuery s) = secondaryInput s"
  "filtersContainer (updateSearchQuery s) = filtersContainer s"
  by (simp_all add: updateSearchQuery_def dispatchInput_frame split: option.split)

lemma renderPills_wiring:
  "searchInput (stateOf (renderPills s)) = searchInput s"
  "inputListeners (stateOf (renderPills s)) = inputListeners s"
  "secondaryInput (stateOf (renderPills s)) = secondaryInput s"
  by (simp_all add: renderPills_def stateOf_def split: option.split)

lemma wired_iff:
  "wired s \<longleftrightarrow>
     (\<forall>r. searchInput s = Some r \<longrightarrow> 0 < inputListeners s r)
     \<and> (secondaryInput s \<noteq> None \<longrightarrow> filtersContainer s \<noteq> None)"
  by (auto simp: wired_def split: option.splits)

lemma wired_loaded: "wired (loaded fs)"
  by (simp add: wired_iff loaded_def)

lemma wired_attached: "wired (attached fs)"
  by (simp add: wired_iff attached_def)

lemma wired_inputOnly: "wired inputOnly"
  by (simp add: wired_iff inputOnly_def)

text \<open>
  In a wired state the secondary input, from which \<open>handleNewFilter\<close> is called, comes
  with a pills container, and the search input with its listener.
\<close>

lemma wired_secondaryInput:
  "wired s \<Longrightarrow> secondaryInput s = Some src \<Longrightarrow> \<exists>c. filtersContainer s = Some c"
  by (auto simp: wired_iff)

lemma wired_searchInput:
  "wired s \<Longrightarrow> searchInput s = Some r \<Longrightarrow> 0 < inputListeners s r"
  by (simp add: wired_iff)

lemma wired_handleNewFilter: "wired s \<Longrightarrow> wired (stateOf (handleNewFilter src s))"
  by (simp add: wired_iff handleNewFilter_def renderPills_wiring renderPills_frame
      updateSearchQuery_frame saveSettings_def stateOf_def [of "Inr s"] split: option.split)

lemma wired_removeFilter: "wired s \<Longrightarrow> wired (stateOf (removeFilter index s))"
  by (simp add: wired_iff removeFilter_def renderPills_wiring renderPills_frame
      updateSearchQuery_frame saveSettings_def)

lemma wired_debouncedUpdate: "wired s \<Longrightarrow> wired (debouncedUpdate index v s)"
  by (simp add: wired_iff debouncedUpdate_def updateSearchQuery_frame saveSettings_def)

lemma wired_userInput: "wired s \<Longrightarrow> wired (userInput r v s)"
  by (simp add: wired_iff userInput_def dispatchInput_frame typed_def)

lemma wired_typed: "wired s \<Longrightarrow> wired (typed r v s)"
  by (simp add: wired_iff typed_def)

lemma wired_rebuilt: "wired s \<Longrightarrow> wired (rebuilt s)"
  by (simp add: wired_iff rebuilt_def)

lemma initializeMainInput_listens:
  "searchInput (initializeMainInput s) = Some r \<Longrightarrow> 0 < inputListeners (initializeMainInput s) r"
  by (auto simp: initializeMainInput_def split: option.splits)

lemma adopt_wiring:
  "searchInput (case x of None \<Rightarrow> s | Some r \<Rightarrow>
      if b r then saveSettings (s\<lparr>filters := f r\<rparr>) else s) = searchInput s"
  "inputListeners (case x of None \<Rightarrow> s | Some r \<Rightarrow>
      if b r then saveSettings (s\<lparr>filters := f r\<rparr>) else s) = inputListeners s"
  "secondaryInput (case x of None \<Rightarrow> s | Some r \<Rightarrow>
      if b r then saveSettings (s\<lparr>filters := f r\<rparr>) else s) = secondaryInput s"
  by (simp_all add: saveSettings_def split: option.split)

lemma setup_listens:
  "searchInput (stateOf (initializeComponents s)) = Some r
     \<Longrightarrow> 0 < inputListeners (stateOf (initializeComponents s)) r"
  unfolding initializeComponents_def Let_def renderPills_wiring adopt_wiring
  by (rule initializeMainInput_listens)

lemma secondaryInput_steps:
  "secondaryInput (initializeMainInput s) = secondaryInput s"
  "secondaryInput (registerSearchHandlers s) = secondaryInput s"
  "secondaryInput (createSecondaryInput s) =
     (if controls s \<and> \<not> existingSecondaryInput s then Some (nextRef s) else secondaryInput s)"
  "secondaryInput (createPillsContainer s) = secondaryInput s"
     apply (simp add: initializeMainInput_def split: option.split)
    apply (simp add: registerSearchHandlers_def registerInputHandler_def split: option.split)
   apply (simp add: createSecondaryInput_def)
  apply (simp add: createPillsContainer_def)
  done

lemma setup_secondaryInput:
  "secondaryInput (stateOf (initializeComponents s)) =
     (if controls s \<and> \<not> existingSecondaryInput s
      then Some (nextRef (createPillsContainer s)) else secondaryInput s)"
  unfolding initializeComponents_def Let_def renderPills_wiring adopt_wiring
    secondaryInput_steps createPillsContainer_frame(1,2)
  by (rule refl)

lemma createPillsContainer_None:
  "filtersContainer (createPillsContainer s) = None \<Longrightarrow> filtersContainer s = None \<and> \<not> controls s"
  by (cases "filtersContainer s") (simp_all add: createPillsContainer_def split: if_splits)

lemma setup_filtersContainer:
  "filtersContainer (stateOf (initializeComponents s)) = None
     \<Longrightarrow> filtersContainer s = None \<and> \<not> controls s"
  unfolding setup_frame by (rule createPillsContainer_None)

lemma wired_setup: "wired s \<Longrightarrow> wired (stateOf (initializeComponents s))"
proof -
  assume w: "wired s"
  let ?s' = "stateOf (initializeComponents s)"
  have "secondaryInput ?s' = None" if "filtersContainer ?s' = None"
  proof -
    from setup_filtersContainer [OF that] have n: "filtersContainer s = None" "\<not> controls s"
      by simp_all
    with w have "secondaryInput s = None" by (simp add: wired_iff)
    with n show ?thesis by (simp add: setup_secondaryInput)
  qed
  then have "secondaryInput ?s' \<noteq> None \<longrightarrow> filtersContainer ?s' \<noteq> None"
    by (intro impI notI) simp
  moreover have "\<forall>r. searchInput ?s' = Some r \<longrightarrow> 0 < inputListeners ?s' r"
    using setup_listens [of s] by blast
  ultimately show ?thesis unfolding wired_iff by (rule conjI [rotated])
qed

section \<open>Claim C5: setting up twice\<close>

text \<open>A first setup and a second one directly after it, in any state.\<close>

lemma setup_twice:
  "inserted (stateOf (initializeComponents (stateOf (initializeComponents s))))
      = inserted (stateOf (initializeComponents s))
   \<and> length (pillsContainers
        (inserted (stateOf (initializeComponents (stateOf (initializeComponents s))))))
        \<le> Suc (length (pillsContainers (inserted s)))
   \<and> length (secondaryInputs
        (inserted (stateOf (initializeComponents (stateOf (initializeComponents s))))))
        \<le> Suc (length (secondaryInputs (inserted s)))"
  using setup_adds_one [of s] by (simp add: setup_second_run)

text \<open>
  Claim C5 wants every creation operation to check for an existing, still-attached
  element before it creates a new one.  The creation of the pills container does; the
  creation of the secondary input looks at a flag instead, which is set when the input
  is created and never cleared.  The plugin is set up on a panel (\<open>attached\<close>), the
  host rebuilds the panel, so that neither the pills container nor the secondary input
  is attached any more, and the setup runs again: it finds the pills container detached
  and creates a new one, element 3, but with the flag still set it creates no secondary
  input, and the one it still refers to, element 2, is not in the document.
\<close>

theorem C5_secondary_input_not_recreated:
  "initializeComponents (withPanel [] (loaded [])) = Inr (attached [])
   \<and> inserted (attached []) = [SearchInputContainer 2, PillsContainer 1]
   \<and> inserted (rebuilt (attached [])) = []
   \<and> controls (rebuilt (attached []))
   \<and> existingSecondaryInput (rebuilt (attached []))
   \<and> inserted (stateOf (initializeComponents (rebuilt (attached [])))) = [PillsContainer 3]
   \<and> secondaryInput (stateOf (initializeComponents (rebuilt (attached [])))) = Some 2"
proof -
  have n: "newFilters (stripNewlines (join delimiter [])) = []"
    by (simp add: stripNewlines_def newFilters_Nil)
  have 1: "initializeComponents (withPanel [] (loaded [])) = Inr (attached [])"
    using attached_reached [OF n] by simp
  have 2: "inserted (attached []) = [SearchInputContainer 2, PillsContainer 1]"
    "inserted (rebuilt (attached [])) = []" "controls (rebuilt (attached []))"
    "existingSecondaryInput (rebuilt (attached []))"
    by (simp_all add: rebuilt_def attached_def)
  have 3: "inserted (stateOf (initializeComponents (rebuilt (attached [])))) = [PillsContainer 3]"
    by (simp add: setup_frame createSecondaryInput_frame createPillsContainer_frame
        rebuilt_def attached_def isConnected_def)
  have 4: "secondaryInput (stateOf (initializeComponents (rebuilt (attached [])))) = Some 2"
    by (simp add: setup_secondaryInput rebuilt_def attached_def)
  from 1 2 3 4 show ?thesis by (intro conjI)
qed

section \<open>Claim C6: setup without the search container\<close>

text \<open>
  Without the search container, without a search input and without a pills container
  from an earlier setup, the setup logs, registers the key handler on a secondary input
  it may still hold, and renders the pills: it returns when the filter list is empty and
  throws when it is not.
\<close>

lemma setup_without_container:
  assumes "\<not> controls s" and "querySearchInput s = None" and "filtersContainer s = None"
  defines "s' \<equiv> (registerSearchHandlers s)
             \<lparr>console := console s @ [Guarded True (existingSecondaryInput s)],
              searchInput := None\<rparr>"
  shows "initializeComponents s = (if filters s = [] then Inr s' else Inl (TypeError, s'))"
proof -
  have 1: "createPillsContainer s = s" using assms(1) by (simp add: createPillsContainer_def)
  have 2: "createSecondaryInput s
      = s\<lparr>console := console s @ [Guarded True (existingSecondaryInput s)]\<rparr>"
    using assms(1) by (simp add: createSecondaryInput_def)
  have q: "nativeInput s = None" "firstSearchInput (inserted s) = None"
    using assms(2) by (simp_all add: querySearchInput_def split: option.splits)
  have 3: "initializeMainInput (registerSearchHandlers (createSecondaryInput s)) = s'"
    unfolding 2
    by (simp add: initializeMainInput_def registerSearchHandlers_def registerInputHandler_def
        querySearchInput_def s'_def q split: option.split)
  have 4: "searchInput s' = None" "filtersContainer s' = None" "filters s' = filters s"
    using assms(3)
    by (simp_all add: s'_def registerSearchHandlers_def registerInputHandler_def
        split: option.split)
  show ?thesis
    unfolding initializeComponents_def 1 3 Let_def by (simp add: 4 renderPills_def)
qed

text \<open>
  Claim C6 wants every setup operation, the pill render at its end included, to be a
  no-op that at most logs when the host's search container cannot be found, for any
  persisted filter list.  The code does not do that: with the filter list \<open>a\<close> loaded
  and no search container in the document, no pills container is created, and the render
  at the end of the setup throws a TypeError on the container that is not there.  The
  exception leaves \<open>initializeComponents\<close> and the \<open>active-leaf-change\<close> listener.
\<close>

theorem C6_setup_throws:
  "initializeComponents (loaded [js ''a''])
     = Inl (TypeError, (loaded [js ''a''])\<lparr>console := [Guarded True False]\<rparr>)
   \<and> activeLeafChange (Some (js ''bookmarks'')) (loaded [js ''a''])
     = Inl (TypeError, (loaded [js ''a''])
         \<lparr>console := [ViewType (Some (js ''bookmarks'')), Guarded True False]\<rparr>)"
  by (simp add: activeLeafChange_def initializeComponents_def loaded_def
      createPillsContainer_def createSecondaryInput_def registerSearchHandlers_def
      registerInputHandler_def initializeMainInput_def querySearchInput_def renderPills_def
      js_def)

section \<open>Claim C8: loading the settings\<close>

lemma last_decimal: "last (decimal n) = of_nat (0x30 + n mod 10)"
  by (subst decimal.simps) simp

lemma decimal_not_filters: "decimal n \<noteq> js ''filters''"
proof
  assume "decimal n = js ''filters''"
  then have "last (decimal n) = last (js ''filters'')" by simp
  then have e: "(of_nat (0x30 + n mod 10) :: jschar) = 0x73"
    unfolding last_decimal by (simp add: js_def)
  have "n mod 10 < 10" by simp
  then have lt: "0x30 + n mod 10 < (65536 :: nat)" by linarith
  have "unat (of_nat (0x30 + n mod 10) :: jschar) = (0x30 + n mod 10) mod 2 ^ LENGTH(16)"
    by (rule unat_of_nat)
  also have "\<dots> = 0x30 + n mod 10" using lt by simp
  finally have "unat (0x73 :: jschar) = 0x30 + n mod 10" unfolding e by simp
  then have "n mod 10 = 67" by simp
  with \<open>n mod 10 < 10\<close> show False by simp
qed

lemma filters_not_index:
  "js ''filters'' \<notin> set (map decimal ns)"
  using decimal_not_filters by (auto simp: image_iff) metis

lemma ownProperties_filters:
  "(\<forall>ps. data = JObject ps \<longrightarrow> js ''filters'' \<notin> fst ` set ps)
     \<Longrightarrow> map_of (ownProperties data) (js ''filters'') = None"
proof (cases data)
  case (JString x)
  have "js ''filters'' \<notin> fst ` set (ownProperties (JString x))"
    using filters_not_index [of "[0..<length x]"] by (auto dest!: set_zip_leftD)
  then show ?thesis using JString by (simp add: map_of_eq_None_iff)
next
  case (JArray xs)
  have "js ''filters'' \<notin> fst ` set (ownProperties (JArray xs))"
    using filters_not_index [of "[0..<length xs]"] by (auto dest!: set_zip_leftD)
  then show ?thesis using JArray by (simp add: map_of_eq_None_iff)
qed (simp_all add: map_of_eq_None_iff)

text \<open>
  Claim C8.  Loading the settings lays the own properties of the persisted record over
  the default \<open>{filters: []}\<close>, property by property.  A missing record (\<open>null\<close>), a
  record without fields, a legacy record that has other fields but no \<open>filters\<close>, and
  any stored value that is not an object with a \<open>filters\<close> field give a settings object
  whose \<open>filters\<close> is the empty list; loading never fails.
\<close>

theorem C8_load_defaults:
  "loadSettings data k =
      (case map_of (ownProperties data) k of
         Some x \<Rightarrow> Some x
       | None \<Rightarrow> map_of DEFAULT_SETTINGS k)
   \<and> ((\<forall>ps. data = JObject ps \<longrightarrow> js ''filters'' \<notin> fst ` set ps) \<longrightarrow>
        loadSettings data (js ''filters'') = Some (JArray []))
   \<and> loadSettings JNull = map_of DEFAULT_SETTINGS
   \<and> loadSettings (JObject []) = map_of DEFAULT_SETTINGS"
proof -
  have 1: "loadSettings data k =
      (case map_of (ownProperties data) k of
         Some x \<Rightarrow> Some x
       | None \<Rightarrow> map_of DEFAULT_SETTINGS k)"
    by (simp add: loadSettings_def map_add_def split: option.split)
  have 2: "(\<forall>ps. data = JObject ps \<longrightarrow> js ''filters'' \<notin> fst ` set ps) \<longrightarrow>
        loadSettings data (js ''filters'') = Some (JArray [])"
    using ownProperties_filters [of data]
    by (simp add: loadSettings_def map_add_def DEFAULT_SETTINGS_def)
  have 3: "loadSettings JNull = map_of DEFAULT_SETTINGS"
    "loadSettings (JObject []) = map_of DEFAULT_SETTINGS"
    by (simp_all add: loadSettings_def)
  from 1 2 3 show ?thesis by blast
qed

theorem C8_load_defaults_witness:
  "js ''filters'' \<noteq> js ''version''
   \<and> loadSettings (JObject [(js ''version'', JNumber 1)]) (js ''filters'') = Some (JArray [])
   \<and> loadSettings (JObject [(js ''version'', JNumber 1)]) (js ''version'') = Some (JNumber 1)
   \<and> loadSettings (JString (js ''legacy'')) (js ''filters'') = Some (JArray [])"
proof -
  have d: "js ''filters'' \<noteq> js ''version''" by (simp add: js_def)
  then have h: "\<forall>ps. JObject [(js ''version'', JNumber 1)] = JObject ps
      \<longrightarrow> js ''filters'' \<notin> fst ` set ps"
    by auto
  have h': "\<forall>ps. JString (js ''legacy'') = JObject ps \<longrightarrow> js ''filters'' \<notin> fst ` set ps"
    by simp
  from C8_load_defaults [of "JObject [(js ''version'', JNumber 1)]" "js ''version''"] h
    C8_load_defaults [of "JString (js ''legacy'')" "js ''version''"] h' d
  show ?thesis by simp
qed

end
